theory Spec2Isabelle
  imports Complex_Main
begin

section \<open>Style provider (plotting/style.py)\<close>

text \<open>
  The values of the style mapping: strings, Python ints and floats, booleans, the colour
  cycler (its property name and its colours) and the pair of the default figure size.
\<close>

datatype rc_value =
    RcStr string
  | RcInt int
  | RcFloat real
  | RcBool bool
  | RcCycler string "string list"
  | RcPair int int

definition theme_color :: string where
  "theme_color = ''#454545''"

text \<open>The dict literal of style.py, in the order it is written.\<close>

definition pyextremes_rc :: "(string \<times> rc_value) list" where
  "pyextremes_rc =
    [(''font.family'', RcStr ''arial''),
     (''font.size'', RcInt 10),
     (''text.color'', RcStr theme_color),
     (''axes.edgecolor'', RcStr theme_color),
     (''axes.linewidth'', RcFloat 0.8),
     (''axes.grid'', RcBool True),
     (''axes.labelsize'', RcInt 10),
     (''axes.labelweight'', RcStr ''normal''),
     (''axes.prop_cycle'',
        RcCycler ''color'' [''#1771F1'', ''#F85C50'', ''#35D073'', ''#FFC11E'']),
     (''xtick.major.size'', RcInt 2),
     (''xtick.minor.size'', RcInt 1),
     (''xtick.major.width'', RcFloat 0.8),
     (''xtick.minor.width'', RcFloat 0.6),
     (''xtick.major.top'', RcBool True),
     (''xtick.major.bottom'', RcBool True),
     (''xtick.minor.top'', RcBool True),
     (''xtick.minor.bottom'', RcBool True),
     (''xtick.color'', RcStr theme_color),
     (''ytick.major.size'', RcInt 2),
     (''ytick.minor.size'', RcInt 1),
     (''ytick.major.width'', RcFloat 0.8),
     (''ytick.minor.width'', RcFloat 0.6),
     (''ytick.color'', RcStr theme_color),
     (''ytick.major.left'', RcBool True),
     (''ytick.major.right'', RcBool True),
     (''ytick.minor.left'', RcBool True),
     (''ytick.minor.right'', RcBool True),
     (''grid.color'', RcStr theme_color),
     (''grid.linestyle'', RcStr '':''),
     (''grid.linewidth'', RcFloat 0.4),
     (''grid.alpha'', RcFloat 1.0),
     (''legend.frameon'', RcBool False),
     (''legend.edgecolor'', RcStr theme_color),
     (''figure.figsize'', RcPair 8 5),
     (''figure.dpi'', RcInt 96)]"

section \<open>Tables (pandas.DataFrame as plot_return_values reads it)\<close>

text \<open>
  A table is its index and its columns in order, each a label with its values. Cell values
  and Python floats are reals. The plotter reads a table in three ways only: \<open>.index\<close>,
  \<open>.columns[0]\<close> and \<open>.loc[:, label]\<close>. Labels are taken to be unique, as they are in a
  frame built from a dict; \<open>loc\<close> reads the first column of that label. This is what a
  table holds; the tables themselves are objects of the state below, passed by handle.
\<close>

record table =
  index :: "real list"
  columns :: "(string \<times> real list) list"

datatype error =
    KeyError string
  | IndexError
  | LibraryError string

text \<open>\<open>t.loc[:, c]\<close>: the values of column \<open>c\<close>, KeyError when there is no such column.\<close>

definition loc :: "table \<Rightarrow> string \<Rightarrow> error + real list" where
  "loc t c = (case map_of (columns t) c of None \<Rightarrow> Inl (KeyError c) | Some v \<Rightarrow> Inr v)"

text \<open>\<open>t.columns[0]\<close>: the label of the first column, IndexError when there is none.\<close>

definition column0 :: "table \<Rightarrow> error + string" where
  "column0 t = (case columns t of [] \<Rightarrow> Inl IndexError | (n, _) # _ \<Rightarrow> Inr n)"

text \<open>Evaluating one argument after another: the first error ends the evaluation.\<close>

definition bind_e :: "error + 'a \<Rightarrow> ('a \<Rightarrow> error + 'b) \<Rightarrow> error + 'b" where
  "bind_e x f = (case x of Inl e \<Rightarrow> Inl e | Inr v \<Rightarrow> f v)"

text \<open>The tables the docstring and the data model describe.\<close>

definition has_col :: "table \<Rightarrow> string \<Rightarrow> bool" where
  "has_col t c = (c \<in> set (map fst (columns t)))"

definition wf_table :: "table \<Rightarrow> bool" where
  "wf_table t = (distinct (map fst (columns t)) \<and>
                 list_all (\<lambda>(n, vs). length vs = length (index t)) (columns t))"

definition valid_observed :: "table \<Rightarrow> bool" where
  "valid_observed t = (wf_table t \<and> has_col t ''return period'')"

definition valid_modeled :: "table \<Rightarrow> bool" where
  "valid_modeled t = (wf_table t \<and> has_col t ''return value'' \<and>
                      has_col t ''lower ci'' \<and> has_col t ''upper ci'')"

section \<open>The drawable surface and the process-wide state\<close>

text \<open>
  The calls plot_return_values makes on an axes, with the arguments it passes, in the
  order of the Python signature used at the call site:
  \<^item> \<open>Plot x y color lw ls zorder\<close>
  \<^item> \<open>Fill_between x y1 y2 facecolor edgecolor alpha zorder\<close>
  \<^item> \<open>Scatter x y marker s lw facecolor edgecolor zorder\<close>
  \<^item> \<open>Grid visible which\<close>, for \<open>ax.grid(True, which='both')\<close>
  \<^item> \<open>Xaxis_set_major_formatter f\<close>, for \<open>ax.xaxis.set_major_formatter(f)\<close>
\<close>

datatype formatter = FormatStrFormatter string

datatype call =
    Semilogx
  | Grid bool string
  | Xaxis_set_major_formatter formatter
  | Plot "real list" "real list" string int string int
  | Fill_between "real list" "real list" "real list" string string real int
  | Scatter "real list" "real list" string int int string string int
  | Set_xlabel string
  | Set_ylabel string

type_synonym style = "string \<rightharpoonup> rc_value"

text \<open>
  A figure of pyplot's registry: its size in inches, its resolution, the handle of its
  axes, and the rendering defaults in effect when it was created.
\<close>

record figure =
  fig_size :: "real \<times> real"
  fig_dpi :: int
  fig_axes :: nat
  fig_rc :: style

text \<open>
  The state a call can touch: matplotlib's rcParams, pyplot's figures (a figure handle is
  its position in the list), the axes objects (an axes handle is a number; each surface is
  the list of calls made on it so far, each with the rendering defaults in effect when it
  was made), the tables (a table handle is a number; the caller's data frames live here and
  the plotter is given their handles), and the messages given to the logger.
\<close>

record world =
  rcParams :: style
  figures :: "figure list"
  next_axes :: nat
  surfaces :: "nat \<Rightarrow> (style \<times> call) list"
  frames :: "nat \<Rightarrow> table"
  logged :: "string list"

text \<open>
  What the rendering library raises on a call, if anything. The library is not part of
  the repository, so its failures are a parameter of the model.
\<close>

type_synonym renderer = "call \<Rightarrow> error option"

type_synonym 'a action = "world \<Rightarrow> (error + 'a) \<times> world"

text \<open>\<open>logger.info(msg)\<close>\<close>

definition info :: "string \<Rightarrow> unit action" where
  "info msg w = (Inr (), w\<lparr>logged := logged w @ [msg]\<rparr>)"

text \<open>\<open>plt.subplots(figsize=..., dpi=...)\<close>: a new figure with one new, empty axes.\<close>

definition subplots :: "real \<times> real \<Rightarrow> int \<Rightarrow> world \<Rightarrow> (nat \<times> nat) \<times> world" where
  "subplots fs d w =
     (let f = length (figures w); a = next_axes w
      in ((f, a),
          w\<lparr>figures := figures w @
                 [\<lparr>fig_size = fs, fig_dpi = d, fig_axes = a, fig_rc = rcParams w\<rparr>],
            next_axes := Suc a,
            surfaces := (surfaces w)(a := [])\<rparr>))"

text \<open>
  One call on axes \<open>a\<close>. Its arguments are evaluated first, in the state as it then is
  (a table access may raise), then the library is called with the values read; a call that
  raises leaves the surface as it was, and a call that returns has changed the surface of
  its axes and nothing else.
\<close>

definition draw :: "renderer \<Rightarrow> nat \<Rightarrow> (world \<Rightarrow> error + call) \<Rightarrow> unit action" where
  "draw R a x w =
     (case x w of
        Inl e \<Rightarrow> (Inl e, w)
      | Inr c \<Rightarrow>
          (case R c of
             Some e \<Rightarrow> (Inl e, w)
           | None \<Rightarrow>
               (Inr (), w\<lparr>surfaces := (surfaces w)(a := surfaces w a @ [(rcParams w, c)])\<rparr>)))"

text \<open>A sequence of statements: the first one that raises ends it.\<close>

fun run :: "unit action list \<Rightarrow> unit action" where
  "run [] w = (Inr (), w)"
| "run (s # ss) w =
     (case s w of
        (Inl e, w') \<Rightarrow> (Inl e, w')
      | (Inr _, w') \<Rightarrow> run ss w')"

text \<open>
  \<open>with plt.rc_context(rc=...)\<close>: the defaults are updated with \<open>rc\<close> for the body and
  put back when the body is left, by return or by exception.
\<close>

definition rc_context :: "(string \<times> rc_value) list \<Rightarrow> (world \<Rightarrow> 'r \<times> world) \<Rightarrow> world \<Rightarrow> 'r \<times> world" where
  "rc_context rc body w =
     (let orig = rcParams w;
          (r, w') = body (w\<lparr>rcParams := rcParams w ++ map_of rc\<rparr>)
      in (r, w'\<lparr>rcParams := orig\<rparr>))"

section \<open>The return-value plotter (plotting/return_values.py)\<close>

text \<open>The default of the \<open>figsize\<close> parameter, \<open>(8, 8/1.618)\<close>.\<close>

definition default_figsize :: "real \<times> real" where
  "default_figsize = (8, 8 / 1.618)"

text \<open>Lines 80 to 84: the arguments of the call that draws the modeled curve.\<close>

definition central_curve :: "table \<Rightarrow> error + call" where
  "central_curve modeled =
     bind_e (loc modeled ''return value'') (\<lambda>y.
       Inr (Plot (index modeled) y ''#F85C50'' 2 ''-'' 20))"

text \<open>Lines 88 to 92: the arguments of the call in the loop over the two bounds.\<close>

definition bound_curve :: "table \<Rightarrow> string \<Rightarrow> error + call" where
  "bound_curve modeled col =
     bind_e (loc modeled col) (\<lambda>y.
       Inr (Plot (index modeled) y ''#5199FF'' 1 ''--'' 15))"

text \<open>Lines 93 to 98.\<close>

definition band :: "table \<Rightarrow> error + call" where
  "band modeled =
     bind_e (loc modeled ''lower ci'') (\<lambda>lo.
     bind_e (loc modeled ''upper ci'') (\<lambda>hi.
       Inr (Fill_between (index modeled) lo hi ''#5199FF'' ''None'' 0.25 10)))"

text \<open>Lines 101 to 105.\<close>

definition points :: "table \<Rightarrow> error + call" where
  "points observed =
     bind_e (loc observed ''return period'') (\<lambda>x.
     bind_e (column0 observed) (\<lambda>n.
     bind_e (loc observed n) (\<lambda>y.
       Inr (Scatter x y ''o'' 20 1 ''k'' ''w'' 20))))"

text \<open>Line 109.\<close>

definition ylabel :: "table \<Rightarrow> error + call" where
  "ylabel observed = bind_e (column0 observed) (\<lambda>n. Inr (Set_ylabel n))"

text \<open>
  Lines 74 to 109, on the axes \<open>ax\<close>; \<open>observed\<close> and \<open>modeled\<close> are the handles of the
  two tables, read where the source reads them.
\<close>

definition draw_all :: "renderer \<Rightarrow> nat \<Rightarrow> nat \<Rightarrow> nat \<Rightarrow> unit action" where
  "draw_all R observed modeled ax =
     run ([info ''configuring axes'',
           draw R ax (\<lambda>w. Inr Semilogx),
           draw R ax (\<lambda>w. Inr (Grid True ''both'')),
           draw R ax (\<lambda>w. Inr (Xaxis_set_major_formatter (FormatStrFormatter ''%.0f''))),
           info ''plotting return values'',
           draw R ax (\<lambda>w. central_curve (frames w modeled)),
           info ''plotting confidence intervals'']
          @ map (\<lambda>col. draw R ax (\<lambda>w. bound_curve (frames w modeled) col)) [''lower ci'', ''upper ci'']
          @ [draw R ax (\<lambda>w. band (frames w modeled)),
             info ''plotting observed extreme values'',
             draw R ax (\<lambda>w. points (frames w observed)),
             info ''labeling axes'',
             draw R ax (\<lambda>w. Inr (Set_xlabel ''Return period'')),
             draw R ax (\<lambda>w. ylabel (frames w observed))])"

text \<open>
  The function. The two tables are given by handle; \<open>ax\<close> is \<open>None\<close> when the caller
  gives no axes; \<open>figsize\<close> is \<open>None\<close> when the caller leaves the default. The result is
  the pair \<open>(fig, ax)\<close> or the exception, with the state the call leaves behind.
\<close>

definition plot_return_values ::
  "renderer \<Rightarrow> nat \<Rightarrow> nat \<Rightarrow> nat option \<Rightarrow> (real \<times> real) option \<Rightarrow> (nat option \<times> nat) action" where
  "plot_return_values R observed_return_values modeled_return_values ax figsize =
     rc_context pyextremes_rc (\<lambda>w.
       let ((fig, ax'), w1) =
             (case ax of
                None \<Rightarrow>
                  (let ((f, a), w') =
                         subplots (case figsize of None \<Rightarrow> default_figsize | Some s \<Rightarrow> s) 96
                           (snd (info ''creating new figure and axes'' w))
                   in ((Some f, a), w'))
              | Some a \<Rightarrow> ((None, a), snd (info ''plotting to existing axes'' w)))
       in (case draw_all R observed_return_values modeled_return_values ax' w1 of
             (Inl e, w2) \<Rightarrow> (Inl e, w2)
           | (Inr _, w2) \<Rightarrow> (Inr (fig, ax'), w2)))"

section \<open>What a call leaves on the surface\<close>

text \<open>
  The arguments of the ten calls that lines 74 to 109 make on the axes, for given contents
  of the two tables, in the order of the source; an entry is \<open>Inl e\<close> when evaluating the
  arguments raises \<open>e\<close>.
\<close>

definition draw_args :: "table \<Rightarrow> table \<Rightarrow> (error + call) list" where
  "draw_args observed modeled =
     [Inr Semilogx,
      Inr (Grid True ''both''),
      Inr (Xaxis_set_major_formatter (FormatStrFormatter ''%.0f'')),
      central_curve modeled,
      bound_curve modeled ''lower ci'',
      bound_curve modeled ''upper ci'',
      band modeled,
      points observed,
      Inr (Set_xlabel ''Return period''),
      ylabel observed]"

text \<open>
  The calls that reach the surface from a sequence of attempted calls, and the exception
  that ends the sequence, if one does: the first argument error or the first call the
  library rejects.
\<close>

fun issued :: "renderer \<Rightarrow> (error + call) list \<Rightarrow> call list \<times> error option" where
  "issued R [] = ([], None)"
| "issued R (Inl e # xs) = ([], Some e)"
| "issued R (Inr c # xs) =
     (case R c of
        Some e \<Rightarrow> ([], Some e)
      | None \<Rightarrow> (case issued R xs of (cs, r) \<Rightarrow> (c # cs, r)))"

text \<open>
  The two kinds of statement of the body, to reason about sequences of them: a message to
  the logger, and a call whose arguments are read from the tables.
\<close>

datatype stmt = Info string | Draw "(nat \<Rightarrow> table) \<Rightarrow> error + call"

fun step :: "renderer \<Rightarrow> nat \<Rightarrow> stmt \<Rightarrow> unit action" where
  "step R a (Info m) = info m"
| "step R a (Draw x) = draw R a (\<lambda>w. x (frames w))"

fun args_of :: "stmt list \<Rightarrow> (nat \<Rightarrow> table) \<Rightarrow> (error + call) list" where
  "args_of [] F = []"
| "args_of (Info m # ss) F = args_of ss F"
| "args_of (Draw x # ss) F = x F # args_of ss F"

text \<open>The axes a call draws on, and what that surface holds when drawing starts.\<close>

definition target :: "nat option \<Rightarrow> world \<Rightarrow> nat" where
  "target ax w = (case ax of None \<Rightarrow> next_axes w | Some a \<Rightarrow> a)"

definition before :: "nat option \<Rightarrow> world \<Rightarrow> (style \<times> call) list" where
  "before ax w = (case ax of None \<Rightarrow> [] | Some a \<Rightarrow> surfaces w a)"

text \<open>The rendering defaults in effect inside the call.\<close>

definition scoped_style :: "world \<Rightarrow> style" where
  "scoped_style w = rcParams w ++ map_of pyextremes_rc"

text \<open>
  Calling again and again on the same existing axes, each time with its own tables and
  figure size: the results in order, and the state after the last call.
\<close>

fun replot ::
  "renderer \<Rightarrow> nat \<Rightarrow> (nat \<times> nat \<times> (real \<times> real) option) list \<Rightarrow> world
     \<Rightarrow> (error + nat option \<times> nat) list \<times> world" where
  "replot R a [] w = ([], w)"
| "replot R a ((obs, md, fs) # rest) w =
     (case plot_return_values R obs md (Some a) fs w of
        (r, w') \<Rightarrow> (case replot R a rest w' of (rs, w'') \<Rightarrow> (r # rs, w'')))"

text \<open>
  The drawn elements by kind: the filled band, a dashed bound, and the elements on top (the
  solid curve and the markers); the stacking order matplotlib is given for each.
\<close>

fun is_band :: "call \<Rightarrow> bool" where
  "is_band (Fill_between x y1 y2 fc ec alpha z) = True"
| "is_band _ = False"

fun is_bound :: "call \<Rightarrow> bool" where
  "is_bound (Plot x y color lw ls z) = (ls = ''--'')"
| "is_bound _ = False"

fun is_top :: "call \<Rightarrow> bool" where
  "is_top (Plot x y color lw ls z) = (ls = ''-'')"
| "is_top (Scatter x y marker s lw fc ec z) = True"
| "is_top _ = False"

fun zorder_of :: "call \<Rightarrow> int option" where
  "zorder_of (Plot x y color lw ls z) = Some z"
| "zorder_of (Fill_between x y1 y2 fc ec alpha z) = Some z"
| "zorder_of (Scatter x y marker s lw fc ec z) = Some z"
| "zorder_of _ = None"

definition below :: "call \<Rightarrow> call \<Rightarrow> bool" where
  "below c d =
     (case zorder_of c of
        None \<Rightarrow> False
      | Some i \<Rightarrow> (case zorder_of d of None \<Rightarrow> False | Some j \<Rightarrow> i < j))"

text \<open>
  The state in which drawing starts (after the branch on \<open>ax\<close>, inside the scope of the
  style), and the figure handle the call returns.
\<close>

definition entry :: "nat option \<Rightarrow> (real \<times> real) option \<Rightarrow> world \<Rightarrow> world" where
  "entry ax fs w =
     (case ax of
        None \<Rightarrow>
          w\<lparr>rcParams := scoped_style w,
            logged := logged w @ [''creating new figure and axes''],
            figures := figures w @
              [\<lparr>fig_size = (case fs of None \<Rightarrow> default_figsize | Some s \<Rightarrow> s), fig_dpi = 96,
                fig_axes = next_axes w, fig_rc = scoped_style w\<rparr>],
            next_axes := Suc (next_axes w),
            surfaces := (surfaces w)(next_axes w := [])\<rparr>
      | Some a \<Rightarrow>
          w\<lparr>rcParams := scoped_style w,
            logged := logged w @ [''plotting to existing axes'']\<rparr>)"

definition new_figure :: "nat option \<Rightarrow> world \<Rightarrow> nat option" where
  "new_figure ax w = (case ax of None \<Rightarrow> Some (length (figures w)) | Some a \<Rightarrow> None)"

text \<open>
  \<open>ax.get_xlabel()\<close> and \<open>ax.get_ylabel()\<close>: the label set last, the empty string when
  none was set.
\<close>

definition get_xlabel :: "(style \<times> call) list \<Rightarrow> string" where
  "get_xlabel s = foldl (\<lambda>l (st, c). case c of Set_xlabel x \<Rightarrow> x | _ \<Rightarrow> l) '''' s"

definition get_ylabel :: "(style \<times> call) list \<Rightarrow> string" where
  "get_ylabel s = foldl (\<lambda>l (st, c). case c of Set_ylabel y \<Rightarrow> y | _ \<Rightarrow> l) '''' s"

section \<open>Example inputs\<close>

text \<open>
  Three observed extremes with return periods 2, 5 and 10, and a modeled curve over the
  return periods 1, 10 and 100 with bounds 0.2 below and above it.
\<close>

definition observed_example :: table where
  "observed_example =
     \<lparr>index = [0, 1, 2],
      columns = [(''water level'', [1.1, 1.8, 2.3]), (''return period'', [2, 5, 10])]\<rparr>"

definition modeled_example :: table where
  "modeled_example =
     \<lparr>index = [1, 10, 100],
      columns = [(''return value'', [1.0, 2.0, 3.0]),
                 (''lower ci'', [0.8, 1.8, 2.8]),
                 (''upper ci'', [1.2, 2.2, 3.2])]\<rparr>"

text \<open>The same observations without the return periods.\<close>

definition observed_no_period :: table where
  "observed_no_period =
     \<lparr>index = [0, 1, 2], columns = [(''water level'', [1.1, 1.8, 2.3])]\<rparr>"

text \<open>The same tables with columns the plotter does not read.\<close>

definition observed_extra :: table where
  "observed_extra =
     \<lparr>index = [7, 8, 9],
      columns = [(''water level'', [1.1, 1.8, 2.3]), (''station'', [4, 4, 4]),
                 (''return period'', [2, 5, 10])]\<rparr>"

definition modeled_extra :: table where
  "modeled_extra =
     \<lparr>index = [1, 10, 100],
      columns = [(''cv'', [0.1, 0.1, 0.1]),
                 (''return value'', [1.0, 2.0, 3.0]),
                 (''lower ci'', [0.8, 1.8, 2.8]),
                 (''upper ci'', [1.2, 2.2, 3.2])]\<rparr>"

text \<open>A library that raises nothing, and one that rejects every filled band.\<close>

definition no_failure :: renderer where
  "no_failure c = None"

definition no_band :: renderer where
  "no_band c = (if is_band c then Some (LibraryError ''fill_between'') else None)"

text \<open>
  A state with one axes, handle 0, that the caller made, nothing drawn on it, rendering
  defaults that differ from the style provider's, and the example tables under the handles
  0 to 4; handle 5 is a second table with the contents of the observed example.
\<close>

definition world0 :: world where
  "world0 =
     \<lparr>rcParams = [''font.size'' \<mapsto> RcInt 12, ''figure.dpi'' \<mapsto> RcInt 100],
      figures = [],
      next_axes = 1,
      surfaces = (\<lambda>a. []),
      frames = (\<lambda>h. if h = 0 then observed_example
                    else if h = 1 then modeled_example
                    else if h = 2 then observed_no_period
                    else if h = 3 then observed_extra
                    else if h = 4 then modeled_extra
                    else if h = 5 then observed_example
                    else \<lparr>index = [], columns = []\<rparr>),
      logged = []\<rparr>"

section \<open>Reading the tables\<close>

lemma loc_has_col: "has_col t c \<Longrightarrow> \<exists>v. loc t c = Inr v"
  by (cases "map_of (columns t) c") (auto simp: loc_def has_col_def map_of_eq_None_iff)

lemma loc_no_col: "\<not> has_col t c \<Longrightarrow> loc t c = Inl (KeyError c)"
  by (cases "map_of (columns t) c")
     (auto simp: loc_def has_col_def dest!: map_of_SomeD intro: rev_image_eqI)

lemma loc_Inr_has_col: "loc t c = Inr v \<Longrightarrow> has_col t c"
  using loc_no_col[of t c] by (cases "has_col t c") auto

lemma loc_column0: "column0 t = Inr n \<Longrightarrow> \<exists>y. loc t n = Inr y"
  by (cases "columns t") (auto simp: column0_def loc_def)

lemma column0_has_col: "has_col t c \<Longrightarrow> \<exists>n. column0 t = Inr n"
  by (cases "columns t") (auto simp: column0_def has_col_def)

lemma central_curve_Inr:
  "central_curve md = Inr c \<Longrightarrow>
     \<exists>rv. loc md ''return value'' = Inr rv \<and> c = Plot (index md) rv ''#F85C50'' 2 ''-'' 20"
  by (cases "loc md ''return value''") (auto simp: central_curve_def bind_e_def)

lemma bound_curve_Inr:
  "bound_curve md col = Inr c \<Longrightarrow>
     \<exists>y. loc md col = Inr y \<and> c = Plot (index md) y ''#5199FF'' 1 ''--'' 15"
  by (cases "loc md col") (auto simp: bound_curve_def bind_e_def)

lemma band_Inr:
  "band md = Inr c \<Longrightarrow>
     \<exists>lo hi. loc md ''lower ci'' = Inr lo \<and> loc md ''upper ci'' = Inr hi \<and>
       c = Fill_between (index md) lo hi ''#5199FF'' ''None'' 0.25 10"
  by (cases "loc md ''lower ci''"; cases "loc md ''upper ci''") (auto simp: band_def bind_e_def)

lemma points_Inr:
  "points obs = Inr c \<Longrightarrow>
     \<exists>rp n y. loc obs ''return period'' = Inr rp \<and> column0 obs = Inr n \<and> loc obs n = Inr y \<and>
       c = Scatter rp y ''o'' 20 1 ''k'' ''w'' 20"
  by (cases "loc obs ''return period''"; cases "column0 obs")
     (auto simp: points_def bind_e_def split: sum.splits)

lemma ylabel_Inr:
  "ylabel obs = Inr c \<Longrightarrow> \<exists>n. column0 obs = Inr n \<and> c = Set_ylabel n"
  by (cases "column0 obs") (auto simp: ylabel_def bind_e_def)

section \<open>Attempted and issued calls\<close>

lemma issued_all:
  "snd (issued R xs) = None \<Longrightarrow> xs = map Inr (fst (issued R xs))"
proof (induction xs)
  case Nil
  show ?case by simp
next
  case (Cons x xs)
  show ?case
  proof (cases x)
    case (Inl e)
    then show ?thesis using Cons.prems by simp
  next
    case (Inr c)
    then show ?thesis using Cons
      by (cases "R c") (auto split: prod.splits)
  qed
qed

lemma issued_accepted:
  "c \<in> set (fst (issued R xs)) \<Longrightarrow> R c = None \<and> Inr c \<in> set xs"
proof (induction xs)
  case Nil
  then show ?case by simp
next
  case (Cons x xs)
  show ?case
  proof (cases x)
    case (Inl e)
    then show ?thesis using Cons.prems by simp
  next
    case (Inr d)
    then show ?thesis using Cons
      by (cases "R d") (auto split: prod.splits)
  qed
qed

lemma issued_stops:
  "snd (issued R xs) = Some e \<Longrightarrow>
     length (fst (issued R xs)) < length xs \<and>
     take (length (fst (issued R xs))) xs = map Inr (fst (issued R xs)) \<and>
     (xs ! length (fst (issued R xs)) = Inl e \<or>
      (\<exists>c. xs ! length (fst (issued R xs)) = Inr c \<and> R c = Some e))"
proof (induction xs)
  case Nil
  then show ?case by simp
next
  case (Cons x xs)
  show ?case
  proof (cases x)
    case (Inl e')
    then show ?thesis using Cons.prems by simp
  next
    case (Inr c)
    then show ?thesis using Cons
      by (cases "R c") (auto split: prod.splits)
  qed
qed

lemma issued_no_failure:
  "\<forall>c. R c = None \<Longrightarrow> issued R (map Inr cs) = (cs, None)"
  by (induction cs) simp_all

text \<open>The ten calls of a complete drawing.\<close>

lemma complete_args:
  assumes "snd (issued R (draw_args obs md)) = None"
  shows "\<exists>rv lo hi rp n y.
           loc md ''return value'' = Inr rv \<and> loc md ''lower ci'' = Inr lo \<and>
           loc md ''upper ci'' = Inr hi \<and> loc obs ''return period'' = Inr rp \<and>
           column0 obs = Inr n \<and> loc obs n = Inr y \<and>
           fst (issued R (draw_args obs md)) =
             [Semilogx, Grid True ''both'', Xaxis_set_major_formatter (FormatStrFormatter ''%.0f''),
              Plot (index md) rv ''#F85C50'' 2 ''-'' 20,
              Plot (index md) lo ''#5199FF'' 1 ''--'' 15,
              Plot (index md) hi ''#5199FF'' 1 ''--'' 15,
              Fill_between (index md) lo hi ''#5199FF'' ''None'' 0.25 10,
              Scatter rp y ''o'' 20 1 ''k'' ''w'' 20,
              Set_xlabel ''Return period'', Set_ylabel n]"
proof -
  define cs where "cs = fst (issued R (draw_args obs md))"
  have "draw_args obs md = map Inr cs" unfolding cs_def using assms by (rule issued_all)
  then obtain c4 c5 c6 c7 c8 c10 where
    cs: "cs = [Semilogx, Grid True ''both'', Xaxis_set_major_formatter (FormatStrFormatter ''%.0f''),
                c4, c5, c6, c7, c8, Set_xlabel ''Return period'', c10]"
    and a4: "central_curve md = Inr c4"
    and a5: "bound_curve md ''lower ci'' = Inr c5"
    and a6: "bound_curve md ''upper ci'' = Inr c6"
    and a7: "band md = Inr c7"
    and a8: "points obs = Inr c8"
    and a10: "ylabel obs = Inr c10"
    unfolding draw_args_def by (auto simp: Cons_eq_map_conv)
  from central_curve_Inr[OF a4] bound_curve_Inr[OF a5] bound_curve_Inr[OF a6]
       band_Inr[OF a7] points_Inr[OF a8] ylabel_Inr[OF a10]
  show ?thesis unfolding cs_def[symmetric] cs by auto
qed

lemma valid_complete:
  assumes "valid_observed obs" and "valid_modeled md" and "\<forall>c. R c = None"
  shows "snd (issued R (draw_args obs md)) = None"
proof -
  obtain rv where rv: "loc md ''return value'' = Inr rv"
    using assms(2) loc_has_col unfolding valid_modeled_def by blast
  obtain lo where lo: "loc md ''lower ci'' = Inr lo"
    using assms(2) loc_has_col unfolding valid_modeled_def by blast
  obtain hi where hi: "loc md ''upper ci'' = Inr hi"
    using assms(2) loc_has_col unfolding valid_modeled_def by blast
  obtain rp where rp: "loc obs ''return period'' = Inr rp"
    using assms(1) loc_has_col unfolding valid_observed_def by blast
  obtain n where n: "column0 obs = Inr n"
    using assms(1) column0_has_col unfolding valid_observed_def by blast
  obtain y where y: "loc obs n = Inr y"
    using loc_column0[OF n] by blast
  have "draw_args obs md = map Inr
          [Semilogx, Grid True ''both'', Xaxis_set_major_formatter (FormatStrFormatter ''%.0f''),
           Plot (index md) rv ''#F85C50'' 2 ''-'' 20,
           Plot (index md) lo ''#5199FF'' 1 ''--'' 15,
           Plot (index md) hi ''#5199FF'' 1 ''--'' 15,
           Fill_between (index md) lo hi ''#5199FF'' ''None'' 0.25 10,
           Scatter rp y ''o'' 20 1 ''k'' ''w'' 20,
           Set_xlabel ''Return period'', Set_ylabel n]"
    by (simp add: draw_args_def central_curve_def bound_curve_def band_def points_def
          ylabel_def bind_e_def rv lo hi rp n y)
  then show ?thesis by (simp only: issued_no_failure[OF assms(3)] snd_conv)
qed

text \<open>The first column that is missing.\<close>

lemma central_curve_missing:
  "\<not> has_col md ''return value'' \<Longrightarrow> central_curve md = Inl (KeyError ''return value'')"
  by (simp add: central_curve_def bind_e_def loc_no_col)

lemma central_curve_present:
  "has_col md ''return value'' \<Longrightarrow> \<exists>c. central_curve md = Inr c"
  using loc_has_col[of md "''return value''"] by (auto simp: central_curve_def bind_e_def)

lemma bound_curve_missing:
  "\<not> has_col md col \<Longrightarrow> bound_curve md col = Inl (KeyError col)"
  by (simp add: bound_curve_def bind_e_def loc_no_col)

lemma bound_curve_present:
  "has_col md col \<Longrightarrow> \<exists>c. bound_curve md col = Inr c"
  using loc_has_col[of md col] by (auto simp: bound_curve_def bind_e_def)

lemma band_present:
  "has_col md ''lower ci'' \<Longrightarrow> has_col md ''upper ci'' \<Longrightarrow> \<exists>c. band md = Inr c"
  using loc_has_col[of md "''lower ci''"] loc_has_col[of md "''upper ci''"]
  by (auto simp: band_def bind_e_def)

lemma points_missing:
  "\<not> has_col obs ''return period'' \<Longrightarrow> points obs = Inl (KeyError ''return period'')"
  by (simp add: points_def bind_e_def loc_no_col)

lemma incomplete_fails:
  assumes "\<not> has_col obs ''return period'' \<or> \<not> has_col md ''return value'' \<or>
           \<not> has_col md ''lower ci'' \<or> \<not> has_col md ''upper ci''"
  shows "snd (issued R (draw_args obs md)) \<noteq> None"
proof
  assume "snd (issued R (draw_args obs md)) = None"
  from complete_args[OF this] obtain rv lo hi rp where
    "loc md ''return value'' = Inr rv" "loc md ''lower ci'' = Inr lo"
    "loc md ''upper ci'' = Inr hi" "loc obs ''return period'' = Inr rp"
    by blast
  then show False using assms by (auto dest: loc_Inr_has_col)
qed

lemma first_missing:
  assumes R: "\<forall>c. R c = None"
    and m: "\<not> has_col obs ''return period'' \<or> \<not> has_col md ''return value'' \<or>
           \<not> has_col md ''lower ci'' \<or> \<not> has_col md ''upper ci''"
  shows "snd (issued R (draw_args obs md)) =
           Some (KeyError (if \<not> has_col md ''return value'' then ''return value''
                           else if \<not> has_col md ''lower ci'' then ''lower ci''
                           else if \<not> has_col md ''upper ci'' then ''upper ci''
                           else ''return period'')) \<and>
         length (fst (issued R (draw_args obs md))) =
           (if \<not> has_col md ''return value'' then 3
            else if \<not> has_col md ''lower ci'' then 4
            else if \<not> has_col md ''upper ci'' then 5
            else 7) \<and>
         take 3 (fst (issued R (draw_args obs md))) =
           [Semilogx, Grid True ''both'', Xaxis_set_major_formatter (FormatStrFormatter ''%.0f'')]"
proof (cases "has_col md ''return value''")
  case False
  then show ?thesis using R by (simp add: draw_args_def central_curve_missing)
next
  case rv: True
  then obtain c4 where c4: "central_curve md = Inr c4" using central_curve_present by blast
  show ?thesis
  proof (cases "has_col md ''lower ci''")
    case False
    then show ?thesis using R rv c4 by (simp add: draw_args_def bound_curve_missing)
  next
    case lo: True
    then obtain c5 where c5: "bound_curve md ''lower ci'' = Inr c5"
      using bound_curve_present by blast
    show ?thesis
    proof (cases "has_col md ''upper ci''")
      case False
      then show ?thesis using R rv lo c4 c5 by (simp add: draw_args_def bound_curve_missing)
    next
      case hi: True
      then obtain c6 where c6: "bound_curve md ''upper ci'' = Inr c6"
        using bound_curve_present by blast
      obtain c7 where c7: "band md = Inr c7" using band_present[OF lo hi] by blast
      have "\<not> has_col obs ''return period''" using m rv lo hi by blast
      then show ?thesis using R rv lo hi c4 c5 c6 c7
        by (simp add: draw_args_def points_missing)
    qed
  qed
qed

text \<open>The stacking order of each kind of element.\<close>

lemma kind_zorder:
  assumes "Inr c \<in> set (draw_args obs md)"
  shows "(is_band c \<longrightarrow> zorder_of c = Some 10) \<and> (is_bound c \<longrightarrow> zorder_of c = Some 15) \<and>
         (is_top c \<longrightarrow> zorder_of c = Some 20) \<and>
         (zorder_of c \<noteq> None \<longrightarrow> is_band c \<or> is_bound c \<or> is_top c)"
proof -
  consider "c = Semilogx" | "c = Grid True ''both''"
    | "c = Xaxis_set_major_formatter (FormatStrFormatter ''%.0f'')"
    | "central_curve md = Inr c" | "bound_curve md ''lower ci'' = Inr c"
    | "bound_curve md ''upper ci'' = Inr c" | "band md = Inr c" | "points obs = Inr c"
    | "c = Set_xlabel ''Return period''" | "ylabel obs = Inr c"
    using assms unfolding draw_args_def by auto
  then show ?thesis
  proof cases
    case 4
    from central_curve_Inr[OF this] show ?thesis by auto
  next
    case 5
    from bound_curve_Inr[OF this] show ?thesis by auto
  next
    case 6
    from bound_curve_Inr[OF this] show ?thesis by auto
  next
    case 7
    from band_Inr[OF this] show ?thesis by auto
  next
    case 8
    from points_Inr[OF this] show ?thesis by auto
  next
    case 10
    from ylabel_Inr[OF this] show ?thesis by auto
  qed simp_all
qed

text \<open>The style in force inside the call.\<close>

lemma pyextremes_rc_distinct: "distinct (map fst pyextremes_rc)"
  by (simp add: pyextremes_rc_def)

lemma scoped_style_provider:
  "(k, v) \<in> set pyextremes_rc \<Longrightarrow> scoped_style w k = Some v"
  using pyextremes_rc_distinct by (simp add: scoped_style_def map_add_Some_iff)

lemma scoped_style_other:
  "k \<notin> fst ` set pyextremes_rc \<Longrightarrow> scoped_style w k = rcParams w k"
  using map_of_eq_None_iff[of pyextremes_rc k] by (simp add: scoped_style_def map_add_def)

text \<open>The example inputs, evaluated.\<close>

lemma example_complete:
  "issued no_failure (draw_args observed_example modeled_example) =
     ([Semilogx, Grid True ''both'', Xaxis_set_major_formatter (FormatStrFormatter ''%.0f''),
       Plot [1, 10, 100] [1.0, 2.0, 3.0] ''#F85C50'' 2 ''-'' 20,
       Plot [1, 10, 100] [0.8, 1.8, 2.8] ''#5199FF'' 1 ''--'' 15,
       Plot [1, 10, 100] [1.2, 2.2, 3.2] ''#5199FF'' 1 ''--'' 15,
       Fill_between [1, 10, 100] [0.8, 1.8, 2.8] [1.2, 2.2, 3.2] ''#5199FF'' ''None'' 0.25 10,
       Scatter [2, 5, 10] [1.1, 1.8, 2.3] ''o'' 20 1 ''k'' ''w'' 20,
       Set_xlabel ''Return period'', Set_ylabel ''water level''],
      None)"
  by (simp add: draw_args_def central_curve_def bound_curve_def band_def points_def ylabel_def
        bind_e_def loc_def column0_def observed_example_def modeled_example_def no_failure_def)

lemma example_no_period:
  "issued no_failure (draw_args observed_no_period modeled_example) =
     ([Semilogx, Grid True ''both'', Xaxis_set_major_formatter (FormatStrFormatter ''%.0f''),
       Plot [1, 10, 100] [1.0, 2.0, 3.0] ''#F85C50'' 2 ''-'' 20,
       Plot [1, 10, 100] [0.8, 1.8, 2.8] ''#5199FF'' 1 ''--'' 15,
       Plot [1, 10, 100] [1.2, 2.2, 3.2] ''#5199FF'' 1 ''--'' 15,
       Fill_between [1, 10, 100] [0.8, 1.8, 2.8] [1.2, 2.2, 3.2] ''#5199FF'' ''None'' 0.25 10],
      Some (KeyError ''return period''))"
  by (simp add: draw_args_def central_curve_def bound_curve_def band_def points_def ylabel_def
        bind_e_def loc_def column0_def observed_no_period_def modeled_example_def no_failure_def)

lemma example_no_band:
  "issued no_band (draw_args observed_example modeled_example) =
     ([Semilogx, Grid True ''both'', Xaxis_set_major_formatter (FormatStrFormatter ''%.0f''),
       Plot [1, 10, 100] [1.0, 2.0, 3.0] ''#F85C50'' 2 ''-'' 20,
       Plot [1, 10, 100] [0.8, 1.8, 2.8] ''#5199FF'' 1 ''--'' 15,
       Plot [1, 10, 100] [1.2, 2.2, 3.2] ''#5199FF'' 1 ''--'' 15],
      Some (LibraryError ''fill_between''))"
  by (simp add: draw_args_def central_curve_def bound_curve_def band_def points_def ylabel_def
        bind_e_def loc_def column0_def observed_example_def modeled_example_def no_band_def)

section \<open>Properties of statement sequences\<close>

lemma run_steps_frames:
  "frames (snd (run (map (step R a) ss) w)) = frames w"
proof (induction ss arbitrary: w)
  case Nil
  show ?case by simp
next
  case (Cons s ss)
  show ?case
  proof (cases s)
    case (Info m)
    then show ?thesis by (simp add: info_def Cons.IH)
  next
    case (Draw x)
    show ?thesis
    proof (cases "x (frames w)")
      case (Inl e)
      then show ?thesis using Draw by (simp add: draw_def)
    next
      case (Inr c)
      then show ?thesis using Draw
        by (cases "R c") (simp_all add: draw_def Cons.IH)
    qed
  qed
qed

lemma run_steps_result:
  "fst (run (map (step R a) ss) w) =
     (case snd (issued R (args_of ss (frames w))) of None \<Rightarrow> Inr () | Some e \<Rightarrow> Inl e)"
proof (induction ss arbitrary: w)
  case Nil
  show ?case by simp
next
  case (Cons s ss)
  show ?case
  proof (cases s)
    case (Info m)
    then show ?thesis by (simp add: info_def Cons.IH)
  next
    case (Draw x)
    show ?thesis
    proof (cases "x (frames w)")
      case (Inl e)
      then show ?thesis using Draw by (simp add: draw_def)
    next
      case (Inr c)
      then show ?thesis using Draw
        by (cases "R c") (auto simp: draw_def Cons.IH split: prod.splits)
    qed
  qed
qed

lemma run_steps_frame:
  "rcParams (snd (run (map (step R a) ss) w)) = rcParams w \<and>
   figures (snd (run (map (step R a) ss) w)) = figures w \<and>
   next_axes (snd (run (map (step R a) ss) w)) = next_axes w"
proof (induction ss arbitrary: w)
  case Nil
  show ?case by simp
next
  case (Cons s ss)
  show ?case
  proof (cases s)
    case (Info m)
    then show ?thesis by (simp add: info_def Cons.IH)
  next
    case (Draw x)
    show ?thesis
    proof (cases "x (frames w)")
      case (Inl e)
      then show ?thesis using Draw by (simp add: draw_def)
    next
      case (Inr c)
      then show ?thesis using Draw
        by (cases "R c") (simp_all add: draw_def Cons.IH)
    qed
  qed
qed

lemma run_steps_surfaces:
  "surfaces (snd (run (map (step R a) ss) w)) =
     (surfaces w)(a := surfaces w a @
        map (Pair (rcParams w)) (fst (issued R (args_of ss (frames w)))))"
proof (induction ss arbitrary: w)
  case Nil
  show ?case by simp
next
  case (Cons s ss)
  show ?case
  proof (cases s)
    case (Info m)
    then show ?thesis by (simp add: info_def Cons.IH)
  next
    case (Draw x)
    show ?thesis
    proof (cases "x (frames w)")
      case (Inl e)
      then show ?thesis using Draw by (simp add: draw_def)
    next
      case (Inr c)
      then show ?thesis using Draw
        by (cases "R c") (auto simp: draw_def Cons.IH fun_eq_iff split: prod.splits)
    qed
  qed
qed

lemma draw_all_steps:
  "draw_all R obs md a =
     run (map (step R a)
       [Info ''configuring axes'',
        Draw (\<lambda>F. Inr Semilogx),
        Draw (\<lambda>F. Inr (Grid True ''both'')),
        Draw (\<lambda>F. Inr (Xaxis_set_major_formatter (FormatStrFormatter ''%.0f''))),
        Info ''plotting return values'',
        Draw (\<lambda>F. central_curve (F md)),
        Info ''plotting confidence intervals'',
        Draw (\<lambda>F. bound_curve (F md) ''lower ci''),
        Draw (\<lambda>F. bound_curve (F md) ''upper ci''),
        Draw (\<lambda>F. band (F md)),
        Info ''plotting observed extreme values'',
        Draw (\<lambda>F. points (F obs)),
        Info ''labeling axes'',
        Draw (\<lambda>F. Inr (Set_xlabel ''Return period'')),
        Draw (\<lambda>F. ylabel (F obs))])"
  unfolding draw_all_def by simp

lemma draw_all_result:
  "fst (draw_all R obs md a w) =
     (case snd (issued R (draw_args (frames w obs) (frames w md))) of
        None \<Rightarrow> Inr ()
      | Some e \<Rightarrow> Inl e)"
  unfolding draw_all_steps run_steps_result by (simp add: draw_args_def)

lemma draw_all_frame:
  "rcParams (snd (draw_all R obs md a w)) = rcParams w \<and>
   figures (snd (draw_all R obs md a w)) = figures w \<and>
   next_axes (snd (draw_all R obs md a w)) = next_axes w"
  unfolding draw_all_steps by (rule run_steps_frame)

lemma draw_all_frames:
  "frames (snd (draw_all R obs md a w)) = frames w"
  unfolding draw_all_steps by (rule run_steps_frames)

lemma draw_all_surfaces:
  "surfaces (snd (draw_all R obs md a w)) =
     (surfaces w)(a := surfaces w a @
        map (Pair (rcParams w)) (fst (issued R (draw_args (frames w obs) (frames w md)))))"
  unfolding draw_all_steps run_steps_surfaces by (simp add: draw_args_def)

section \<open>The call as a whole\<close>

lemma entry_frames: "frames (entry ax fs w) = frames w"
  by (cases ax) (simp_all add: entry_def)

lemma plot_unfold:
  "plot_return_values R obs md ax fs w =
     (case fst (draw_all R obs md (target ax w) (entry ax fs w)) of
        Inl e \<Rightarrow> Inl e
      | Inr u \<Rightarrow> Inr (new_figure ax w, target ax w),
      (snd (draw_all R obs md (target ax w) (entry ax fs w)))\<lparr>rcParams := rcParams w\<rparr>)"
proof (cases ax)
  case None
  obtain r w2 where d: "draw_all R obs md (next_axes w) (entry None fs w) = (r, w2)"
    by (cases "draw_all R obs md (next_axes w) (entry None fs w)")
  have "subplots (case fs of None \<Rightarrow> default_figsize | Some s \<Rightarrow> s) 96
          (snd (info ''creating new figure and axes'' (w\<lparr>rcParams := rcParams w ++ map_of pyextremes_rc\<rparr>)))
        = ((length (figures w), next_axes w), entry None fs w)"
    by (simp add: subplots_def info_def entry_def scoped_style_def Let_def)
  then show ?thesis using None d
    by (cases r) (simp_all add: plot_return_values_def rc_context_def target_def new_figure_def)
next
  case (Some a)
  obtain r w2 where d: "draw_all R obs md a (entry (Some a) fs w) = (r, w2)"
    by (cases "draw_all R obs md a (entry (Some a) fs w)")
  have "snd (info ''plotting to existing axes'' (w\<lparr>rcParams := rcParams w ++ map_of pyextremes_rc\<rparr>))
        = entry (Some a) fs w"
    by (simp add: info_def entry_def scoped_style_def)
  then show ?thesis using Some d
    by (cases r) (simp_all add: plot_return_values_def rc_context_def target_def new_figure_def)
qed

lemma plot_result:
  "fst (plot_return_values R obs md ax fs w) =
     (case snd (issued R (draw_args (frames w obs) (frames w md))) of
        Some e \<Rightarrow> Inl e
      | None \<Rightarrow> Inr (new_figure ax w, target ax w))"
  by (simp add: plot_unfold draw_all_result entry_frames split: option.splits)

lemma plot_rcParams:
  "rcParams (snd (plot_return_values R obs md ax fs w)) = rcParams w"
  by (simp add: plot_unfold)

lemma plot_frames:
  "frames (snd (plot_return_values R obs md ax fs w)) = frames w"
  by (simp add: plot_unfold draw_all_frames entry_frames)

lemma plot_surfaces:
  "surfaces (snd (plot_return_values R obs md ax fs w)) =
     (surfaces w)(target ax w :=
        before ax w @
        map (Pair (scoped_style w)) (fst (issued R (draw_args (frames w obs) (frames w md)))))"
  by (cases ax)
     (simp_all add: plot_unfold draw_all_surfaces entry_frames, simp_all add: entry_def target_def before_def)

lemma plot_figures:
  "figures (snd (plot_return_values R obs md ax fs w)) =
     (case ax of
        None \<Rightarrow>
          figures w @
            [\<lparr>fig_size = (case fs of None \<Rightarrow> default_figsize | Some s \<Rightarrow> s), fig_dpi = 96,
              fig_axes = next_axes w, fig_rc = scoped_style w\<rparr>]
      | Some a \<Rightarrow> figures w)"
  by (cases ax) (simp_all add: plot_unfold draw_all_frame entry_def)

lemma plot_next_axes:
  "next_axes (snd (plot_return_values R obs md ax fs w)) =
     (case ax of None \<Rightarrow> Suc (next_axes w) | Some a \<Rightarrow> next_axes w)"
  by (cases ax) (simp_all add: plot_unfold draw_all_frame entry_def)

lemma world0_frames:
  "frames world0 0 = observed_example" "frames world0 (Suc 0) = modeled_example"
  "frames world0 1 = modeled_example"
  "frames world0 2 = observed_no_period" "frames world0 3 = observed_extra"
  "frames world0 4 = modeled_extra" "frames world0 5 = observed_example"
  by (simp_all add: world0_def)

lemma example_returns:
  "fst (plot_return_values no_failure 0 1 None None world0) = Inr (Some 0, 1)"
  by (simp add: plot_result world0_frames example_complete new_figure_def target_def)
     (simp add: world0_def)

text \<open>Two sequences whose statements agree on the tables as they are do the same.\<close>

lemma run_steps_cong:
  assumes "list_all2 (\<lambda>s s'. case s of
                        Info m \<Rightarrow> s' = Info m
                      | Draw x \<Rightarrow> (\<exists>x'. s' = Draw x' \<and> x F = x' F)) ss ss'"
  shows "frames w = F \<Longrightarrow> run (map (step R a) ss) w = run (map (step R a) ss') w"
  using assms
proof (induction ss ss' arbitrary: w rule: list_all2_induct)
  case Nil
  show ?case by simp
next
  case (Cons s ss s' ss')
  show ?case
  proof (cases s)
    case (Info m)
    then have s': "s' = Info m" using Cons.hyps(1) by simp
    have "frames (w\<lparr>logged := logged w @ [m]\<rparr>) = F" using Cons.prems by simp
    from Cons.IH[OF this] show ?thesis using Info s' by (simp add: info_def)
  next
    case (Draw x)
    then obtain x' where s': "s' = Draw x'" and x: "x F = x' F" using Cons.hyps(1) by auto
    show ?thesis
    proof (cases "x F")
      case (Inl e)
      then have "x' F = Inl e" using x by simp
      then show ?thesis using Draw s' Inl Cons.prems by (simp add: draw_def)
    next
      case (Inr c)
      then have x': "x' F = Inr c" using x by simp
      show ?thesis
      proof (cases "R c")
        case None
        have "frames (w\<lparr>surfaces := (surfaces w)(a := surfaces w a @ [(rcParams w, c)])\<rparr>) = F"
          using Cons.prems by simp
        from Cons.IH[OF this] show ?thesis
          using Draw s' Inr x' None Cons.prems by (simp add: draw_def)
      next
        case (Some e)
        then show ?thesis using Draw s' Inr x' Cons.prems by (simp add: draw_def)
      qed
    qed
  qed
qed

lemma plot_cong:
  assumes "draw_args (frames w o1) (frames w m1) = draw_args (frames w o2) (frames w m2)"
  shows "plot_return_values R o1 m1 ax fs w = plot_return_values R o2 m2 ax fs w"
proof -
  have "draw_all R o1 m1 (target ax w) (entry ax fs w) =
        draw_all R o2 m2 (target ax w) (entry ax fs w)"
    unfolding draw_all_steps
    by (rule run_steps_cong[where F = "frames w"])
       (use assms in \<open>simp_all add: draw_args_def entry_frames\<close>)
  then show ?thesis by (simp add: plot_unfold)
qed

section \<open>The returned handles\<close>

lemma replot_no_figure:
  "\<forall>r \<in> set (fst (replot R a calls w)). \<forall>f a'. r \<noteq> Inr (Some f, a')"
proof (induction calls arbitrary: w)
  case Nil
  show ?case by simp
next
  case (Cons x calls)
  obtain obs md fs where x: "x = (obs, md, fs)" by (cases x)
  obtain r w' where p: "plot_return_values R obs md (Some a) fs w = (r, w')"
    by (cases "plot_return_values R obs md (Some a) fs w")
  have "\<forall>f a'. r \<noteq> Inr (Some f, a')"
    using plot_result[of R obs md "Some a" fs w] p
    by (auto simp: new_figure_def split: option.splits)
  then show ?case using Cons.IH[of w'] x p by (auto split: prod.splits)
qed

lemma replot_figures:
  "figures (snd (replot R a calls w)) = figures w"
proof (induction calls arbitrary: w)
  case Nil
  show ?case by simp
next
  case (Cons x calls)
  obtain obs md fs where x: "x = (obs, md, fs)" by (cases x)
  obtain r w' where p: "plot_return_values R obs md (Some a) fs w = (r, w')"
    by (cases "plot_return_values R obs md (Some a) fs w")
  have "figures w' = figures w"
    using plot_figures[of R obs md "Some a" fs w] p by simp
  then show ?case using Cons.IH[of w'] x p by (auto split: prod.splits)
qed

lemma replot_valid:
  assumes "\<forall>c. R c = None"
    and "list_all (\<lambda>(obs, md, fs). valid_observed (F obs) \<and> valid_modeled (F md)) calls"
  shows "frames w = F \<Longrightarrow> fst (replot R a calls w) = replicate (length calls) (Inr (None, a))"
  using assms(2)
proof (induction calls arbitrary: w)
  case Nil
  show ?case by simp
next
  case (Cons x calls)
  obtain obs md fs where x: "x = (obs, md, fs)" by (cases x)
  obtain r w' where p: "plot_return_values R obs md (Some a) fs w = (r, w')"
    by (cases "plot_return_values R obs md (Some a) fs w")
  have v: "valid_observed (frames w obs)" "valid_modeled (frames w md)"
    using Cons.prems x by auto
  have "r = Inr (None, a)"
    using plot_result[of R obs md "Some a" fs w] p valid_complete[OF v assms(1)]
    by (simp add: new_figure_def target_def)
  moreover have "frames w' = F"
    using plot_frames[of R obs md "Some a" fs w] p Cons.prems(1) by simp
  ultimately show ?case using Cons.IH[of w'] Cons.prems x p by (auto split: prod.splits)
qed

text \<open>
  C1. For valid observed and modeled tables (and a library that raises nothing) the call
  returns a pair of handles, and the figure handle is present exactly when no axes was
  given. Calling any number of times on an existing axes never returns a figure handle and
  never adds a figure to pyplot's registry; with valid tables every such call returns
  \<open>(None, ax)\<close>.
\<close>

theorem figure_handle_iff_no_axes:
  "(valid_observed (frames w obs) \<and> valid_modeled (frames w md) \<and> (\<forall>c. R c = None) \<longrightarrow>
      (\<exists>fig a w'. plot_return_values R obs md ax fs w = (Inr (fig, a), w') \<and>
                  (fig \<noteq> None \<longleftrightarrow> ax = None))) \<and>
   (\<forall>r \<in> set (fst (replot R a calls w)). \<forall>f a'. r \<noteq> Inr (Some f, a')) \<and>
   figures (snd (replot R a calls w)) = figures w \<and>
   ((\<forall>c. R c = None) \<and>
    list_all (\<lambda>(obs, md, fs). valid_observed (frames w obs) \<and> valid_modeled (frames w md)) calls
    \<longrightarrow> fst (replot R a calls w) = replicate (length calls) (Inr (None, a)))"
proof -
  have first: "\<exists>fig a w'. plot_return_values R obs md ax fs w = (Inr (fig, a), w') \<and>
                  (fig \<noteq> None \<longleftrightarrow> ax = None)"
    if v: "valid_observed (frames w obs)" "valid_modeled (frames w md)" "\<forall>c. R c = None"
  proof -
    have "fst (plot_return_values R obs md ax fs w) = Inr (new_figure ax w, target ax w)"
      using plot_result[of R obs md ax fs w] valid_complete[OF v] by simp
    moreover have "new_figure ax w \<noteq> None \<longleftrightarrow> ax = None"
      by (cases ax) (simp_all add: new_figure_def)
    ultimately show ?thesis
      by (cases "plot_return_values R obs md ax fs w") auto
  qed
  show ?thesis
    using first replot_no_figure[of R a calls w] replot_figures[of R a calls w]
      replot_valid[of R "frames w" calls w a]
    by blast
qed

theorem figure_handle_iff_no_axes_witness:
  "valid_observed (frames world0 0) \<and> valid_modeled (frames world0 1) \<and>
   (\<forall>c. no_failure c = None) \<and>
   list_all (\<lambda>(obs, md, fs). valid_observed (frames world0 obs) \<and> valid_modeled (frames world0 md))
     [(0, 1, None), (3, 4, Some (4, 3))] \<and>
   (\<exists>fig a w'. plot_return_values no_failure 0 1 None None world0 = (Inr (fig, a), w') \<and>
               fig \<noteq> None) \<and>
   fst (replot no_failure 0 [(0, 1, None), (3, 4, Some (4, 3))] world0) =
     [Inr (None, 0), Inr (None, 0)]"
proof -
  have v: "valid_observed (frames world0 0)" "valid_modeled (frames world0 1)"
          "valid_observed (frames world0 3)" "valid_modeled (frames world0 4)"
    unfolding world0_frames
    by (simp_all add: valid_observed_def valid_modeled_def wf_table_def has_col_def
          observed_example_def modeled_example_def observed_extra_def modeled_extra_def)
  have n: "\<forall>c. no_failure c = None" by (simp add: no_failure_def)
  show ?thesis
    using figure_handle_iff_no_axes[of world0 0 1 no_failure None None 0
            "[(0, 1, None), (3, 4, Some (4, 3))]"]
      v n
    by simp
qed

section \<open>Missing columns\<close>

text \<open>
  C2, as the code has it. When the observed table has no \<open>return period\<close> column or the
  modeled table lacks \<open>return value\<close>, \<open>lower ci\<close> or \<open>upper ci\<close>, a call without axes
  fails. Nothing is checked before drawing starts: with a library that raises nothing, the
  error is the KeyError of the first missing column in the order the code reads them
  (\<open>return value\<close>, \<open>lower ci\<close>, \<open>upper ci\<close>, \<open>return period\<close>), and by then the new
  surface holds the three configuring calls and every drawing call made before that read:
  3, 4, 5 or 7 calls.
\<close>

theorem missing_column_fails_after_configuration:
  "\<not> has_col (frames w obs) ''return period'' \<or> \<not> has_col (frames w md) ''return value'' \<or>
   \<not> has_col (frames w md) ''lower ci'' \<or> \<not> has_col (frames w md) ''upper ci'' \<Longrightarrow>
   (\<exists>e. fst (plot_return_values R obs md None fs w) = Inl e) \<and>
   ((\<forall>c. R c = None) \<longrightarrow>
      fst (plot_return_values R obs md None fs w) =
        Inl (KeyError (if \<not> has_col (frames w md) ''return value'' then ''return value''
                       else if \<not> has_col (frames w md) ''lower ci'' then ''lower ci''
                       else if \<not> has_col (frames w md) ''upper ci'' then ''upper ci''
                       else ''return period'')) \<and>
      length (surfaces (snd (plot_return_values R obs md None fs w)) (next_axes w)) =
        (if \<not> has_col (frames w md) ''return value'' then 3
         else if \<not> has_col (frames w md) ''lower ci'' then 4
         else if \<not> has_col (frames w md) ''upper ci'' then 5
         else 7) \<and>
      map snd (take 3 (surfaces (snd (plot_return_values R obs md None fs w)) (next_axes w))) =
        [Semilogx, Grid True ''both'', Xaxis_set_major_formatter (FormatStrFormatter ''%.0f'')])"
proof -
  assume m: "\<not> has_col (frames w obs) ''return period'' \<or>
             \<not> has_col (frames w md) ''return value'' \<or>
             \<not> has_col (frames w md) ''lower ci'' \<or> \<not> has_col (frames w md) ''upper ci''"
  let ?args = "draw_args (frames w obs) (frames w md)"
  have s: "surfaces (snd (plot_return_values R obs md None fs w)) (next_axes w) =
             map (Pair (scoped_style w)) (fst (issued R ?args))"
    by (simp add: plot_surfaces target_def before_def)
  have "\<exists>e. fst (plot_return_values R obs md None fs w) = Inl e"
    using incomplete_fails[OF m, of R] by (auto simp: plot_result)
  moreover have "fst (plot_return_values R obs md None fs w) =
        Inl (KeyError (if \<not> has_col (frames w md) ''return value'' then ''return value''
                       else if \<not> has_col (frames w md) ''lower ci'' then ''lower ci''
                       else if \<not> has_col (frames w md) ''upper ci'' then ''upper ci''
                       else ''return period'')) \<and>
      length (surfaces (snd (plot_return_values R obs md None fs w)) (next_axes w)) =
        (if \<not> has_col (frames w md) ''return value'' then 3
         else if \<not> has_col (frames w md) ''lower ci'' then 4
         else if \<not> has_col (frames w md) ''upper ci'' then 5
         else 7) \<and>
      map snd (take 3 (surfaces (snd (plot_return_values R obs md None fs w)) (next_axes w))) =
        [Semilogx, Grid True ''both'', Xaxis_set_major_formatter (FormatStrFormatter ''%.0f'')]"
    if R: "\<forall>c. R c = None"
  proof -
    note f = first_missing[OF R m]
    have "map snd (take 3 (map (Pair (scoped_style w)) (fst (issued R ?args)))) =
            take 3 (fst (issued R ?args))"
      by (simp add: take_map comp_def)
    then show ?thesis using f unfolding s plot_result by simp
  qed
  ultimately show ?thesis by blast
qed

theorem missing_column_fails_after_configuration_witness:
  "\<not> has_col (frames world0 2) ''return period'' \<and> (\<forall>c. no_failure c = None) \<and>
   fst (plot_return_values no_failure 2 1 None None world0) = Inl (KeyError ''return period'') \<and>
   length (surfaces (snd (plot_return_values no_failure 2 1 None None world0))
             (next_axes world0)) = 7"
proof -
  have h: "\<not> has_col (frames world0 2) ''return period''"
          "has_col (frames world0 1) ''return value''" "has_col (frames world0 1) ''lower ci''"
          "has_col (frames world0 1) ''upper ci''"
    unfolding world0_frames
    by (simp_all add: has_col_def observed_no_period_def modeled_example_def)
  have n: "\<forall>c. no_failure c = None" by (simp add: no_failure_def)
  show ?thesis
    using missing_column_fails_after_configuration[of world0 2 1 no_failure None] h n
    by simp
qed

text \<open>
  C2 as stated, that the call fails before any drawing side effect on the new surface, does
  not hold: without the \<open>return period\<close> column the call raises the KeyError after the
  axes was configured and the curve, both bounds and the band were drawn on it.
\<close>

theorem drawing_precedes_missing_column_failure:
  "\<not> has_col (frames world0 2) ''return period'' \<and>
   fst (plot_return_values no_failure 2 1 None None world0) = Inl (KeyError ''return period'') \<and>
   map snd (surfaces (snd (plot_return_values no_failure 2 1 None None world0))
              (next_axes world0)) =
     [Semilogx, Grid True ''both'', Xaxis_set_major_formatter (FormatStrFormatter ''%.0f''),
       Plot [1, 10, 100] [1.0, 2.0, 3.0] ''#F85C50'' 2 ''-'' 20,
       Plot [1, 10, 100] [0.8, 1.8, 2.8] ''#5199FF'' 1 ''--'' 15,
       Plot [1, 10, 100] [1.2, 2.2, 3.2] ''#5199FF'' 1 ''--'' 15,
       Fill_between [1, 10, 100] [0.8, 1.8, 2.8] [1.2, 2.2, 3.2] ''#5199FF'' ''None'' 0.25 10]"
proof -
  have "\<not> has_col (frames world0 2) ''return period''"
    unfolding world0_frames by (simp add: has_col_def observed_no_period_def)
  then show ?thesis
    by (simp add: plot_result plot_surfaces world0_frames example_no_period target_def
          before_def comp_def)
qed

section \<open>The new figure\<close>

text \<open>
  C3, as the code has it. Without axes the call adds one figure to pyplot's registry, of
  the size the caller gave and of resolution 96, whatever else happens in the call. The
  default size is \<open>(8, 8/1.618)\<close>; its height lies between 4.944 and 4.945 and is not 4.944.
\<close>

theorem new_figure_size_and_resolution:
  "(\<exists>f. figures (snd (plot_return_values R obs md None fs w)) = figures w @ [f] \<and>
        fig_size f = (case fs of None \<Rightarrow> (8, 8 / 1.618) | Some s \<Rightarrow> s) \<and>
        fig_dpi f = 96 \<and> fig_axes f = next_axes w) \<and>
   fst default_figsize = 8 \<and> 4.944 < snd default_figsize \<and> snd default_figsize < 4.945"
  by (cases fs) (simp_all add: plot_figures default_figsize_def)

text \<open>
  C3 as stated, that the default size is \<open>(8, 4.944)\<close>, does not hold: the figure a call
  with the default size creates is not of size \<open>(8, 4.944)\<close>.
\<close>

theorem default_figure_height_is_not_4_944:
  "fig_size (last (figures (snd (plot_return_values no_failure 0 1 None None world0))))
     \<noteq> (8, 4.944)"
  by (simp add: plot_figures default_figsize_def)

section \<open>What a returning call has drawn\<close>

text \<open>
  C4. After a call that returns, the last two calls on the axes set the horizontal label
  to \<open>Return period\<close> and the vertical label to the name of the first column of the
  observed table, whatever that name is; these are the labels the axes then has.
\<close>

theorem axis_labels:
  "fst (plot_return_values R obs md ax fs w) = Inr (fig, a) \<Longrightarrow>
   (\<exists>n vs rest cs.
      columns (frames w obs) = (n, vs) # rest \<and>
      surfaces (snd (plot_return_values R obs md ax fs w)) a =
        cs @ map (Pair (scoped_style w)) [Set_xlabel ''Return period'', Set_ylabel n] \<and>
      get_ylabel (surfaces (snd (plot_return_values R obs md ax fs w)) a) = n) \<and>
   get_xlabel (surfaces (snd (plot_return_values R obs md ax fs w)) a) = ''Return period''"
proof -
  assume ok: "fst (plot_return_values R obs md ax fs w) = Inr (fig, a)"
  let ?O = "frames w obs" and ?M = "frames w md"
  from ok have none: "snd (issued R (draw_args ?O ?M)) = None" and a: "a = target ax w"
    by (auto simp: plot_result split: option.splits)
  from complete_args[OF none] obtain rv lo hi rp n y where
    n: "column0 ?O = Inr n" and
    cs: "fst (issued R (draw_args ?O ?M)) =
             [Semilogx, Grid True ''both'', Xaxis_set_major_formatter (FormatStrFormatter ''%.0f''),
              Plot (index ?M) rv ''#F85C50'' 2 ''-'' 20,
              Plot (index ?M) lo ''#5199FF'' 1 ''--'' 15,
              Plot (index ?M) hi ''#5199FF'' 1 ''--'' 15,
              Fill_between (index ?M) lo hi ''#5199FF'' ''None'' 0.25 10,
              Scatter rp y ''o'' 20 1 ''k'' ''w'' 20,
              Set_xlabel ''Return period'', Set_ylabel n]"
    by blast
  obtain vs rest where c: "columns ?O = (n, vs) # rest"
    using n by (cases "columns ?O") (auto simp: column0_def)
  let ?s = "surfaces (snd (plot_return_values R obs md ax fs w)) a"
  have s: "?s = before ax w @ map (Pair (scoped_style w)) (fst (issued R (draw_args ?O ?M)))"
    by (simp add: plot_surfaces a)
  have "?s = (before ax w @ map (Pair (scoped_style w))
               [Semilogx, Grid True ''both'', Xaxis_set_major_formatter (FormatStrFormatter ''%.0f''),
                Plot (index ?M) rv ''#F85C50'' 2 ''-'' 20,
                Plot (index ?M) lo ''#5199FF'' 1 ''--'' 15,
                Plot (index ?M) hi ''#5199FF'' 1 ''--'' 15,
                Fill_between (index ?M) lo hi ''#5199FF'' ''None'' 0.25 10,
                Scatter rp y ''o'' 20 1 ''k'' ''w'' 20])
             @ map (Pair (scoped_style w)) [Set_xlabel ''Return period'', Set_ylabel n]"
    unfolding s cs by simp
  moreover have "get_ylabel ?s = n" unfolding s cs by (simp add: get_ylabel_def)
  moreover have "get_xlabel ?s = ''Return period''" unfolding s cs by (simp add: get_xlabel_def)
  ultimately show ?thesis using c by blast
qed

theorem axis_labels_witness:
  "fst (plot_return_values no_failure 0 1 None None world0) = Inr (Some 0, 1) \<and>
   get_ylabel (surfaces (snd (plot_return_values no_failure 0 1 None None world0)) 1) =
     ''water level'' \<and>
   get_xlabel (surfaces (snd (plot_return_values no_failure 0 1 None None world0)) 1) =
     ''Return period''"
  using axis_labels[OF example_returns] example_returns
  by (auto simp: world0_frames observed_example_def)

text \<open>
  C5. A call that returns has made exactly these ten calls on the axes, in this order,
  after whatever the surface held before: logarithmic x scale; grid on, for major and minor
  ticks; the \<open>%.0f\<close> formatter on the x axis; the modeled curve, solid (\<open>-\<close>), width 2; the
  lower and the upper bound, dashed (\<open>--\<close>), width 1; the band between the bounds, filled
  with opacity 0.25; the observed points as \<open>o\<close> markers of size 20, face \<open>k\<close> (black),
  edge \<open>w\<close> (white); the x label; the y label.
\<close>

theorem draw_sequence:
  "fst (plot_return_values R obs md ax fs w) = Inr (fig, a) \<Longrightarrow>
   \<exists>rv lo hi rp n y.
     loc (frames w md) ''return value'' = Inr rv \<and> loc (frames w md) ''lower ci'' = Inr lo \<and>
     loc (frames w md) ''upper ci'' = Inr hi \<and> loc (frames w obs) ''return period'' = Inr rp \<and>
     column0 (frames w obs) = Inr n \<and> loc (frames w obs) n = Inr y \<and> a = target ax w \<and>
     surfaces (snd (plot_return_values R obs md ax fs w)) a =
       before ax w @ map (Pair (scoped_style w))
         [Semilogx,
          Grid True ''both'',
          Xaxis_set_major_formatter (FormatStrFormatter ''%.0f''),
          Plot (index (frames w md)) rv ''#F85C50'' 2 ''-'' 20,
          Plot (index (frames w md)) lo ''#5199FF'' 1 ''--'' 15,
          Plot (index (frames w md)) hi ''#5199FF'' 1 ''--'' 15,
          Fill_between (index (frames w md)) lo hi ''#5199FF'' ''None'' 0.25 10,
          Scatter rp y ''o'' 20 1 ''k'' ''w'' 20,
          Set_xlabel ''Return period'',
          Set_ylabel n]"
proof -
  assume ok: "fst (plot_return_values R obs md ax fs w) = Inr (fig, a)"
  then have none: "snd (issued R (draw_args (frames w obs) (frames w md))) = None"
    and a: "a = target ax w"
    by (auto simp: plot_result split: option.splits)
  have s: "surfaces (snd (plot_return_values R obs md ax fs w)) a =
             before ax w @
             map (Pair (scoped_style w)) (fst (issued R (draw_args (frames w obs) (frames w md))))"
    by (simp add: plot_surfaces a)
  from complete_args[OF none] show ?thesis unfolding s using a by metis
qed

theorem draw_sequence_witness:
  "fst (plot_return_values no_failure 0 1 None None world0) = Inr (Some 0, 1) \<and>
   map snd (surfaces (snd (plot_return_values no_failure 0 1 None None world0)) 1) =
     [Semilogx, Grid True ''both'', Xaxis_set_major_formatter (FormatStrFormatter ''%.0f''),
      Plot [1, 10, 100] [1.0, 2.0, 3.0] ''#F85C50'' 2 ''-'' 20,
      Plot [1, 10, 100] [0.8, 1.8, 2.8] ''#5199FF'' 1 ''--'' 15,
      Plot [1, 10, 100] [1.2, 2.2, 3.2] ''#5199FF'' 1 ''--'' 15,
      Fill_between [1, 10, 100] [0.8, 1.8, 2.8] [1.2, 2.2, 3.2] ''#5199FF'' ''None'' 0.25 10,
      Scatter [2, 5, 10] [1.1, 1.8, 2.3] ''o'' 20 1 ''k'' ''w'' 20,
      Set_xlabel ''Return period'', Set_ylabel ''water level'']"
proof -
  have l: "loc modeled_example ''return value'' = Inr [1.0, 2.0, 3.0]"
          "loc modeled_example ''lower ci'' = Inr [0.8, 1.8, 2.8]"
          "loc modeled_example ''upper ci'' = Inr [1.2, 2.2, 3.2]"
          "loc observed_example ''return period'' = Inr [2, 5, 10]"
          "column0 observed_example = Inr ''water level''"
          "loc observed_example ''water level'' = Inr [1.1, 1.8, 2.3]"
          "index modeled_example = [1, 10, 100]"
    by (simp_all add: loc_def column0_def observed_example_def modeled_example_def)
  have b: "before None world0 = []" by (simp add: before_def)
  from draw_sequence[OF example_returns] show ?thesis
    using example_returns by (auto simp: world0_frames l b comp_def)
qed

section \<open>Stacking order\<close>

text \<open>
  C6. Among the elements any call puts on the axes, whether it returns or raises, the band
  lies below each dashed bound, each dashed bound below the solid curve and the markers,
  and so the band below those as well; every element with a stacking order is of one of
  these kinds. A call that returns has drawn, in order, the curve, two bounds, the band and
  the markers.
\<close>

theorem stacking_order:
  "\<exists>new.
     surfaces (snd (plot_return_values R obs md ax fs w)) (target ax w) =
       before ax w @ map (Pair (scoped_style w)) new \<and>
     (\<forall>b \<in> set new. \<forall>d \<in> set new. is_band b \<and> is_bound d \<longrightarrow> below b d) \<and>
     (\<forall>d \<in> set new. \<forall>t \<in> set new. is_bound d \<and> is_top t \<longrightarrow> below d t) \<and>
     (\<forall>b \<in> set new. \<forall>t \<in> set new. is_band b \<and> is_top t \<longrightarrow> below b t) \<and>
     (\<forall>c \<in> set new. zorder_of c \<noteq> None \<longrightarrow> is_band c \<or> is_bound c \<or> is_top c) \<and>
     (fst (plot_return_values R obs md ax fs w) = Inr (fig, a) \<longrightarrow>
        map (\<lambda>c. (is_band c, is_bound c, is_top c)) (filter (\<lambda>c. zorder_of c \<noteq> None) new) =
          [(False, False, True), (False, True, False), (False, True, False),
           (True, False, False), (False, False, True)])"
proof -
  let ?new = "fst (issued R (draw_args (frames w obs) (frames w md)))"
  have k: "(is_band c \<longrightarrow> zorder_of c = Some 10) \<and> (is_bound c \<longrightarrow> zorder_of c = Some 15) \<and>
         (is_top c \<longrightarrow> zorder_of c = Some 20) \<and>
         (zorder_of c \<noteq> None \<longrightarrow> is_band c \<or> is_bound c \<or> is_top c)"
    if "c \<in> set ?new" for c
    using issued_accepted[OF that] kind_zorder by blast
  have s: "surfaces (snd (plot_return_values R obs md ax fs w)) (target ax w) =
       before ax w @ map (Pair (scoped_style w)) ?new"
    by (simp add: plot_surfaces)
  have kinds: "map (\<lambda>c. (is_band c, is_bound c, is_top c)) (filter (\<lambda>c. zorder_of c \<noteq> None) ?new) =
          [(False, False, True), (False, True, False), (False, True, False),
           (True, False, False), (False, False, True)]"
    if ok: "fst (plot_return_values R obs md ax fs w) = Inr (fig, a)"
  proof -
    from ok have none: "snd (issued R (draw_args (frames w obs) (frames w md))) = None"
      by (auto simp: plot_result split: option.splits)
    from complete_args[OF none] show ?thesis by auto
  qed
  show ?thesis
  proof (rule exI[of _ ?new], intro conjI)
    show "surfaces (snd (plot_return_values R obs md ax fs w)) (target ax w) =
            before ax w @ map (Pair (scoped_style w)) ?new"
      by (rule s)
    show "\<forall>b \<in> set ?new. \<forall>d \<in> set ?new. is_band b \<and> is_bound d \<longrightarrow> below b d"
      using k by (auto simp: below_def)
    show "\<forall>d \<in> set ?new. \<forall>t \<in> set ?new. is_bound d \<and> is_top t \<longrightarrow> below d t"
      using k by (auto simp: below_def)
    show "\<forall>b \<in> set ?new. \<forall>t \<in> set ?new. is_band b \<and> is_top t \<longrightarrow> below b t"
      using k by (auto simp: below_def)
    show "\<forall>c \<in> set ?new. zorder_of c \<noteq> None \<longrightarrow> is_band c \<or> is_bound c \<or> is_top c"
      using k by blast
    show "fst (plot_return_values R obs md ax fs w) = Inr (fig, a) \<longrightarrow>
        map (\<lambda>c. (is_band c, is_bound c, is_top c)) (filter (\<lambda>c. zorder_of c \<noteq> None) ?new) =
          [(False, False, True), (False, True, False), (False, True, False),
           (True, False, False), (False, False, True)]"
      using kinds by blast
  qed
qed

theorem stacking_order_witness:
  "fst (plot_return_values no_failure 0 1 None None world0) = Inr (Some 0, 1) \<and>
   (\<exists>b d t. {b, d, t} \<subseteq> snd ` set (surfaces (snd (plot_return_values no_failure 0 1 None None
                                                  world0)) (target None world0)) \<and>
      is_band b \<and> is_bound d \<and> is_top t \<and> below b d \<and> below d t \<and> below b t)"
proof -
  let ?w = "snd (plot_return_values no_failure 0 1 None None world0)"
  obtain new where
    s: "surfaces ?w (target None world0) = before None world0 @ map (Pair (scoped_style world0)) new"
    and bd: "\<forall>b \<in> set new. \<forall>d \<in> set new. is_band b \<and> is_bound d \<longrightarrow> below b d"
    and dt: "\<forall>d \<in> set new. \<forall>t \<in> set new. is_bound d \<and> is_top t \<longrightarrow> below d t"
    and bt: "\<forall>b \<in> set new. \<forall>t \<in> set new. is_band b \<and> is_top t \<longrightarrow> below b t"
    using stacking_order[of no_failure 0 1 None None world0 "Some 0" 1]
    by blast
  have "inj (Pair (scoped_style world0) :: call \<Rightarrow> style \<times> call)" by (simp add: inj_on_def)
  from inj_map_eq_map[OF this]
  have new: "new = fst (issued no_failure (draw_args observed_example modeled_example))"
    using s by (simp add: plot_surfaces world0_frames before_def)
  let ?b = "Fill_between [1, 10, 100] [0.8, 1.8, 2.8] [1.2, 2.2, 3.2] ''#5199FF'' ''None'' 0.25 10"
  let ?d = "Plot [1, 10, 100] [0.8, 1.8, 2.8] ''#5199FF'' 1 ''--'' 15"
  let ?t = "Scatter [2, 5, 10] [1.1, 1.8, 2.3] ''o'' 20 1 ''k'' ''w'' 20"
  have mem: "?b \<in> set new" "?d \<in> set new" "?t \<in> set new"
    unfolding new example_complete by simp_all
  have k: "is_band ?b" "is_bound ?d" "is_top ?t" by simp_all
  have "below ?b ?d" "below ?d ?t" "below ?b ?t"
    using bd dt bt mem k by blast+
  moreover have "{?b, ?d, ?t} \<subseteq> snd ` set (surfaces ?w (target None world0))"
    using mem unfolding s by (simp add: image_Un image_image)
  ultimately show ?thesis using k example_returns by blast
qed

section \<open>The scope of the style\<close>

text \<open>
  C7. Whether the call returns or raises, rcParams is afterwards what it was before the
  call. Inside the call the style provider's mapping is in force: every call made on the
  axes, and the figure when one is created, sees each key of \<open>pyextremes_rc\<close> at the
  provider's value and every other key at the caller's value.
\<close>

theorem style_scoped_and_restored:
  "rcParams (snd (plot_return_values R obs md ax fs w)) = rcParams w \<and>
   (\<exists>new.
      surfaces (snd (plot_return_values R obs md ax fs w)) (target ax w) = before ax w @ new \<and>
      (\<forall>(s, c) \<in> set new.
         (\<forall>(k, v) \<in> set pyextremes_rc. s k = Some v) \<and>
         (\<forall>k. k \<notin> fst ` set pyextremes_rc \<longrightarrow> s k = rcParams w k)) \<and>
      (fst (plot_return_values R obs md ax fs w) = Inr (fig, a) \<longrightarrow> length new = 10)) \<and>
   (ax = None \<longrightarrow>
      (\<forall>(k, v) \<in> set pyextremes_rc.
         fig_rc (last (figures (snd (plot_return_values R obs md ax fs w)))) k = Some v))"
proof (intro conjI)
  show "rcParams (snd (plot_return_values R obs md ax fs w)) = rcParams w"
    by (rule plot_rcParams)
  let ?new = "map (Pair (scoped_style w)) (fst (issued R (draw_args (frames w obs) (frames w md))))"
  have len: "length ?new = 10" if ok: "fst (plot_return_values R obs md ax fs w) = Inr (fig, a)"
  proof -
    from ok have none: "snd (issued R (draw_args (frames w obs) (frames w md))) = None"
      by (auto simp: plot_result split: option.splits)
    from complete_args[OF none] show ?thesis by auto
  qed
  show "\<exists>new.
      surfaces (snd (plot_return_values R obs md ax fs w)) (target ax w) = before ax w @ new \<and>
      (\<forall>(s, c) \<in> set new.
         (\<forall>(k, v) \<in> set pyextremes_rc. s k = Some v) \<and>
         (\<forall>k. k \<notin> fst ` set pyextremes_rc \<longrightarrow> s k = rcParams w k)) \<and>
      (fst (plot_return_values R obs md ax fs w) = Inr (fig, a) \<longrightarrow> length new = 10)"
  proof (rule exI[of _ ?new], intro conjI)
    show "surfaces (snd (plot_return_values R obs md ax fs w)) (target ax w) = before ax w @ ?new"
      by (simp add: plot_surfaces)
    show "\<forall>(s, c) \<in> set ?new.
         (\<forall>(k, v) \<in> set pyextremes_rc. s k = Some v) \<and>
         (\<forall>k. k \<notin> fst ` set pyextremes_rc \<longrightarrow> s k = rcParams w k)"
      using scoped_style_provider scoped_style_other by auto
    show "fst (plot_return_values R obs md ax fs w) = Inr (fig, a) \<longrightarrow> length ?new = 10"
      using len by blast
  qed
  show "ax = None \<longrightarrow>
      (\<forall>(k, v) \<in> set pyextremes_rc.
         fig_rc (last (figures (snd (plot_return_values R obs md ax fs w)))) k = Some v)"
    using scoped_style_provider by (auto simp: plot_figures)
qed

theorem style_scoped_and_restored_witness:
  "rcParams world0 ''font.size'' = Some (RcInt 12) \<and>
   fst (plot_return_values no_failure 0 1 None None world0) = Inr (Some 0, 1) \<and>
   rcParams (snd (plot_return_values no_failure 0 1 None None world0)) = rcParams world0 \<and>
   length (surfaces (snd (plot_return_values no_failure 0 1 None None world0)) 1) = 10 \<and>
   map (\<lambda>(s, c). s ''font.size'')
     (surfaces (snd (plot_return_values no_failure 0 1 None None world0)) 1) =
     replicate 10 (Some (RcInt 10)) \<and>
   fig_rc (last (figures (snd (plot_return_values no_failure 0 1 None None world0))))
     ''font.size'' = Some (RcInt 10) \<and>
   fst (plot_return_values no_failure 2 1 None None world0) = Inl (KeyError ''return period'') \<and>
   rcParams (snd (plot_return_values no_failure 2 1 None None world0)) = rcParams world0"
proof -
  let ?P = "plot_return_values no_failure 0 1 None None world0"
  let ?Q = "plot_return_values no_failure 2 1 None None world0"
  note t = style_scoped_and_restored[of no_failure 0 1 None None world0 "Some 0" 1]
  note u = style_scoped_and_restored[of no_failure 2 1 None None world0 "Some 0" 1]
  have m: "(''font.size'', RcInt 10) \<in> set pyextremes_rc" by (simp add: pyextremes_rc_def)
  have tg: "target None world0 = 1" "before None world0 = []"
    by (simp_all add: target_def before_def world0_def)
  from t obtain new where
    s: "surfaces (snd ?P) 1 = new"
    and n: "\<forall>(s, c) \<in> set new. (\<forall>(k, v) \<in> set pyextremes_rc. s k = Some v) \<and>
              (\<forall>k. k \<notin> fst ` set pyextremes_rc \<longrightarrow> s k = rcParams world0 k)"
    and l: "fst ?P = Inr (Some 0, 1) \<longrightarrow> length new = 10"
    unfolding tg by auto
  have len: "length (surfaces (snd ?P) 1) = 10" unfolding s using l example_returns by blast
  have "\<forall>x \<in> set (surfaces (snd ?P) 1). (case x of (s, c) \<Rightarrow> s ''font.size'') = Some (RcInt 10)"
    unfolding s using n m by fastforce
  then have "map (\<lambda>(s, c). s ''font.size'') (surfaces (snd ?P) 1) =
               map (\<lambda>x. Some (RcInt 10)) (surfaces (snd ?P) 1)"
    by (intro map_cong) auto
  then have "map (\<lambda>(s, c). s ''font.size'') (surfaces (snd ?P) 1) = replicate 10 (Some (RcInt 10))"
    using len by (simp add: map_replicate_const)
  moreover note len
  moreover have "fig_rc (last (figures (snd ?P))) ''font.size'' = Some (RcInt 10)"
    using t m by fastforce
  moreover have "rcParams (snd ?P) = rcParams world0" using t by blast
  moreover have "rcParams (snd ?Q) = rcParams world0" using u by blast
  moreover have "fst ?Q = Inl (KeyError ''return period'')"
    by (simp add: plot_result world0_frames example_no_period)
  moreover have "rcParams world0 ''font.size'' = Some (RcInt 12)" by (simp add: world0_def)
  ultimately show ?thesis using example_returns by blast
qed

section \<open>The tables\<close>

text \<open>
  C8. Whether the call returns or raises, every table is afterwards what it was before the
  call, the two it was given among them. Nothing the call leaves behind refers to the
  tables it was given: the result and the state are the same when the same contents are
  passed under other handles.
\<close>

theorem tables_untouched:
  "frames (snd (plot_return_values R obs md ax fs w)) = frames w \<and>
   frames (snd (plot_return_values R obs md ax fs w)) obs = frames w obs \<and>
   frames (snd (plot_return_values R obs md ax fs w)) md = frames w md \<and>
   (frames w obs' = frames w obs \<and> frames w md' = frames w md \<longrightarrow>
      plot_return_values R obs' md' ax fs w = plot_return_values R obs md ax fs w)"
proof -
  have "plot_return_values R obs' md' ax fs w = plot_return_values R obs md ax fs w"
    if "frames w obs' = frames w obs" "frames w md' = frames w md"
    by (rule plot_cong) (simp add: that)
  then show ?thesis by (simp add: plot_frames)
qed

theorem tables_untouched_witness:
  "(5::nat) \<noteq> 0 \<and> frames world0 5 = frames world0 0 \<and> frames world0 1 = frames world0 1 \<and>
   plot_return_values no_failure 5 1 None None world0 =
     plot_return_values no_failure 0 1 None None world0 \<and>
   fst (plot_return_values no_failure 0 1 None None world0) = Inr (Some 0, 1) \<and>
   frames (snd (plot_return_values no_failure 0 1 None None world0)) 0 = observed_example \<and>
   frames (snd (plot_return_values no_failure 0 1 None None world0)) 1 = modeled_example \<and>
   fst (plot_return_values no_failure 2 1 None None world0) = Inl (KeyError ''return period'') \<and>
   frames (snd (plot_return_values no_failure 2 1 None None world0)) 2 = observed_no_period \<and>
   frames (snd (plot_return_values no_failure 2 1 None None world0)) 1 = modeled_example"
proof -
  have e: "frames world0 5 = frames world0 0" by (simp add: world0_frames)
  have "fst (plot_return_values no_failure 2 1 None None world0) = Inl (KeyError ''return period'')"
    by (simp add: plot_result world0_frames example_no_period)
  then show ?thesis
    using tables_untouched[of no_failure 0 1 None None world0 5 1]
      tables_untouched[of no_failure 2 1 None None world0 2 1] e example_returns
    by (simp add: world0_frames)
qed

section \<open>Failure\<close>

lemma issued_configuration:
  "R Semilogx = None \<Longrightarrow> R (Grid True ''both'') = None \<Longrightarrow>
   R (Xaxis_set_major_formatter (FormatStrFormatter ''%.0f'')) = None \<Longrightarrow>
   take 3 (fst (issued R (draw_args obs md))) =
     [Semilogx, Grid True ''both'', Xaxis_set_major_formatter (FormatStrFormatter ''%.0f'')]"
  by (simp add: draw_args_def split: prod.splits)

text \<open>
  C9. Nothing is checked before drawing, nothing is retried and nothing is undone. The
  surface keeps what it held and gains the calls \<open>cs\<close> the library accepted, which are the
  first calls of the sequence in order. Either they are all ten and the call returns both
  handles, or the call raises the error \<open>e\<close> of the first call that could not be made,
  as it is: the error its argument evaluation (a table access) raised, or the error the
  library raised on it. Whatever the tables hold, the three configuring calls are made
  when the library accepts them.
\<close>

theorem all_or_first_failure:
  "\<exists>cs.
     surfaces (snd (plot_return_values R obs md ax fs w)) (target ax w) =
       before ax w @ map (Pair (scoped_style w)) cs \<and>
     (\<forall>c \<in> set cs. R c = None) \<and>
     (R Semilogx = None \<and> R (Grid True ''both'') = None \<and>
      R (Xaxis_set_major_formatter (FormatStrFormatter ''%.0f'')) = None \<longrightarrow>
        take 3 cs =
          [Semilogx, Grid True ''both'', Xaxis_set_major_formatter (FormatStrFormatter ''%.0f'')]) \<and>
     ((fst (plot_return_values R obs md ax fs w) = Inr (new_figure ax w, target ax w) \<and>
       map Inr cs = draw_args (frames w obs) (frames w md)) \<or>
      (\<exists>e. fst (plot_return_values R obs md ax fs w) = Inl e \<and>
           length cs < length (draw_args (frames w obs) (frames w md)) \<and>
           map Inr cs = take (length cs) (draw_args (frames w obs) (frames w md)) \<and>
           (draw_args (frames w obs) (frames w md) ! length cs = Inl e \<or>
            (\<exists>c. draw_args (frames w obs) (frames w md) ! length cs = Inr c \<and> R c = Some e))))"
proof (rule exI[of _ "fst (issued R (draw_args (frames w obs) (frames w md)))"], intro conjI)
  let ?args = "draw_args (frames w obs) (frames w md)"
  let ?cs = "fst (issued R ?args)"
  let ?P = "plot_return_values R obs md ax fs w"
  show "surfaces (snd ?P) (target ax w) = before ax w @ map (Pair (scoped_style w)) ?cs"
    by (simp add: plot_surfaces)
  show "\<forall>c \<in> set ?cs. R c = None"
    using issued_accepted by blast
  show "R Semilogx = None \<and> R (Grid True ''both'') = None \<and>
      R (Xaxis_set_major_formatter (FormatStrFormatter ''%.0f'')) = None \<longrightarrow>
        take 3 ?cs =
          [Semilogx, Grid True ''both'', Xaxis_set_major_formatter (FormatStrFormatter ''%.0f'')]"
    using issued_configuration by blast
  show "(fst ?P = Inr (new_figure ax w, target ax w) \<and> map Inr ?cs = ?args) \<or>
      (\<exists>e. fst ?P = Inl e \<and>
           length ?cs < length ?args \<and>
           map Inr ?cs = take (length ?cs) ?args \<and>
           (?args ! length ?cs = Inl e \<or>
            (\<exists>c. ?args ! length ?cs = Inr c \<and> R c = Some e)))"
  proof (cases "snd (issued R ?args)")
    case None
    then have "fst ?P = Inr (new_figure ax w, target ax w)" by (simp add: plot_result)
    moreover have "map Inr ?cs = ?args" using issued_all[OF None] by simp
    ultimately show ?thesis by blast
  next
    case (Some e)
    then have "fst ?P = Inl e" by (simp add: plot_result)
    then show ?thesis using issued_stops[OF Some] by auto
  qed
qed

theorem all_or_first_failure_witness:
  "fst (plot_return_values no_band 0 1 (Some 0) None world0) =
     Inl (LibraryError ''fill_between'') \<and>
   (\<exists>cs. surfaces (snd (plot_return_values no_band 0 1 (Some 0) None world0)) 0 =
           map (Pair (scoped_style world0)) cs \<and>
         length cs = 6 \<and> map no_band cs = replicate 6 None \<and>
         take 3 cs =
           [Semilogx, Grid True ''both'', Xaxis_set_major_formatter (FormatStrFormatter ''%.0f'')] \<and>
         (\<exists>c. draw_args observed_example modeled_example ! 6 = Inr c \<and>
              no_band c = Some (LibraryError ''fill_between'')))"
proof -
  let ?P = "plot_return_values no_band 0 1 (Some 0) None world0"
  have f: "fst ?P = Inl (LibraryError ''fill_between'')"
    by (simp add: plot_result world0_frames example_no_band)
  have l: "length (surfaces (snd ?P) 0) = 6"
    by (simp add: plot_surfaces world0_frames example_no_band target_def before_def)
       (simp add: world0_def)
  have a: "\<forall>e. draw_args observed_example modeled_example ! 6 \<noteq> Inl e"
    by (simp add: draw_args_def band_def bind_e_def loc_def modeled_example_def)
  have tg: "target (Some 0) world0 = 0" "before (Some 0) world0 = []"
    by (simp_all add: target_def before_def world0_def)
  from all_or_first_failure[of no_band 0 1 "Some 0" None world0]
  obtain cs where
    s: "surfaces (snd ?P) 0 = map (Pair (scoped_style world0)) cs"
    and r: "\<forall>c \<in> set cs. no_band c = None"
    and g: "no_band Semilogx = None \<and> no_band (Grid True ''both'') = None \<and>
            no_band (Xaxis_set_major_formatter (FormatStrFormatter ''%.0f'')) = None \<longrightarrow>
            take 3 cs =
              [Semilogx, Grid True ''both'', Xaxis_set_major_formatter (FormatStrFormatter ''%.0f'')]"
    and d: "(fst ?P = Inr (new_figure (Some 0) world0, 0) \<and>
              map Inr cs = draw_args observed_example modeled_example) \<or>
            (\<exists>e. fst ?P = Inl e \<and>
               length cs < length (draw_args observed_example modeled_example) \<and>
               map Inr cs = take (length cs) (draw_args observed_example modeled_example) \<and>
               (draw_args observed_example modeled_example ! length cs = Inl e \<or>
                (\<exists>c. draw_args observed_example modeled_example ! length cs = Inr c \<and>
                     no_band c = Some e)))"
    unfolding tg world0_frames by auto
  have len: "length cs = 6" using l unfolding s by simp
  from d f a have "\<exists>c. draw_args observed_example modeled_example ! 6 = Inr c \<and>
              no_band c = Some (LibraryError ''fill_between'')"
    unfolding len by auto
  moreover have "map no_band cs = map (\<lambda>c. None) cs"
    using r by (intro map_cong) auto
  then have "map no_band cs = replicate 6 None"
    using len by (simp add: map_replicate_const)
  moreover have "take 3 cs =
      [Semilogx, Grid True ''both'', Xaxis_set_major_formatter (FormatStrFormatter ''%.0f'')]"
    using g by (simp add: no_band_def)
  ultimately show ?thesis using f s len by blast
qed

section \<open>What the result depends on\<close>

text \<open>
  C10. Result and final state depend on the tables only through the modeled index, the
  modeled columns \<open>return value\<close>, \<open>lower ci\<close> and \<open>upper ci\<close>, the observed column
  \<open>return period\<close> and the first observed column: two calls on tables that agree there do
  the same, whatever other columns the tables have. The labels of each table are distinct,
  so that a label names one column and a column under another label is another column.
\<close>

theorem depends_only_on_read_columns:
  "distinct (map fst (columns (frames w o1))) \<Longrightarrow>
   distinct (map fst (columns (frames w o2))) \<Longrightarrow>
   distinct (map fst (columns (frames w m1))) \<Longrightarrow>
   distinct (map fst (columns (frames w m2))) \<Longrightarrow>
   index (frames w m1) = index (frames w m2) \<Longrightarrow>
   loc (frames w m1) ''return value'' = loc (frames w m2) ''return value'' \<Longrightarrow>
   loc (frames w m1) ''lower ci'' = loc (frames w m2) ''lower ci'' \<Longrightarrow>
   loc (frames w m1) ''upper ci'' = loc (frames w m2) ''upper ci'' \<Longrightarrow>
   loc (frames w o1) ''return period'' = loc (frames w o2) ''return period'' \<Longrightarrow>
   take 1 (columns (frames w o1)) = take 1 (columns (frames w o2)) \<Longrightarrow>
   plot_return_values R o1 m1 ax fs w = plot_return_values R o2 m2 ax fs w"
proof -
  let ?O1 = "frames w o1" and ?O2 = "frames w o2" and ?M1 = "frames w m1" and ?M2 = "frames w m2"
  assume i: "index ?M1 = index ?M2"
    and rv: "loc ?M1 ''return value'' = loc ?M2 ''return value''"
    and lo: "loc ?M1 ''lower ci'' = loc ?M2 ''lower ci''"
    and hi: "loc ?M1 ''upper ci'' = loc ?M2 ''upper ci''"
    and rp: "loc ?O1 ''return period'' = loc ?O2 ''return period''"
    and c: "take 1 (columns ?O1) = take 1 (columns ?O2)"
  have c0: "column0 ?O1 = column0 ?O2"
    using c by (cases "columns ?O1"; cases "columns ?O2") (auto simp: column0_def)
  have y: "loc ?O1 n = loc ?O2 n" if "column0 ?O1 = Inr n" for n
    using c that by (cases "columns ?O1"; cases "columns ?O2") (auto simp: column0_def loc_def)
  have "central_curve ?M1 = central_curve ?M2"
    by (simp add: central_curve_def i rv)
  moreover have "bound_curve ?M1 ''lower ci'' = bound_curve ?M2 ''lower ci''"
    by (simp add: bound_curve_def i lo)
  moreover have "bound_curve ?M1 ''upper ci'' = bound_curve ?M2 ''upper ci''"
    by (simp add: bound_curve_def i hi)
  moreover have "band ?M1 = band ?M2"
    by (simp add: band_def i lo hi)
  moreover have "points ?O1 = points ?O2"
    using y by (cases "column0 ?O1") (auto simp: points_def bind_e_def rp c0[symmetric] split: sum.splits)
  moreover have "ylabel ?O1 = ylabel ?O2"
    by (simp add: ylabel_def c0)
  ultimately have "draw_args ?O1 ?M1 = draw_args ?O2 ?M2"
    by (simp add: draw_args_def)
  then show ?thesis by (rule plot_cong)
qed

theorem depends_only_on_read_columns_witness:
  "frames world0 0 \<noteq> frames world0 3 \<and> frames world0 1 \<noteq> frames world0 4 \<and>
   distinct (map fst (columns (frames world0 0))) \<and>
   distinct (map fst (columns (frames world0 3))) \<and>
   distinct (map fst (columns (frames world0 1))) \<and>
   distinct (map fst (columns (frames world0 4))) \<and>
   index (frames world0 1) = index (frames world0 4) \<and>
   loc (frames world0 1) ''return value'' = loc (frames world0 4) ''return value'' \<and>
   loc (frames world0 1) ''lower ci'' = loc (frames world0 4) ''lower ci'' \<and>
   loc (frames world0 1) ''upper ci'' = loc (frames world0 4) ''upper ci'' \<and>
   loc (frames world0 0) ''return period'' = loc (frames world0 3) ''return period'' \<and>
   take 1 (columns (frames world0 0)) = take 1 (columns (frames world0 3)) \<and>
   plot_return_values no_failure 0 1 None None world0 =
     plot_return_values no_failure 3 4 None None world0"
proof -
  have h: "index (frames world0 1) = index (frames world0 4)"
    "loc (frames world0 1) ''return value'' = loc (frames world0 4) ''return value''"
    "loc (frames world0 1) ''lower ci'' = loc (frames world0 4) ''lower ci''"
    "loc (frames world0 1) ''upper ci'' = loc (frames world0 4) ''upper ci''"
    "loc (frames world0 0) ''return period'' = loc (frames world0 3) ''return period''"
    "take 1 (columns (frames world0 0)) = take 1 (columns (frames world0 3))"
    unfolding world0_frames
    by (simp_all add: loc_def observed_example_def observed_extra_def modeled_example_def
          modeled_extra_def)
  have u: "distinct (map fst (columns (frames world0 0)))"
    "distinct (map fst (columns (frames world0 3)))"
    "distinct (map fst (columns (frames world0 1)))"
    "distinct (map fst (columns (frames world0 4)))"
    unfolding world0_frames
    by (simp_all add: observed_example_def observed_extra_def modeled_example_def
          modeled_extra_def)
  have d: "frames world0 0 \<noteq> frames world0 3" "frames world0 1 \<noteq> frames world0 4"
    unfolding world0_frames
    by (simp_all add: observed_example_def observed_extra_def modeled_example_def
          modeled_extra_def)
  from depends_only_on_read_columns[OF u h, of no_failure None None]
  show ?thesis using u h d by simp
qed

end
